theory Spec2Isabelle
  imports Complex_Main "HOL-Library.Sublist"
begin

section \<open>Python values used by the program\<close>

text \<open>
  A Python \<open>str\<close> is a sequence of code points. The model keeps one code point per
  \<^typ>\<open>char\<close>, so it covers the code points below 256; every string literal of the
  program is ASCII. \<open>needle in hay\<close> is \<^const>\<open>sublist\<close>.
\<close>

definition py_isspace :: "char \<Rightarrow> bool" where
  \<comment> \<open>\<open>str.isspace\<close> on one code point below 256: TAB..CR, FS..US, SPACE, NEL, NBSP.\<close>
  "py_isspace c =
     (let n = of_char c :: nat
      in (9 \<le> n \<and> n \<le> 13) \<or> (28 \<le> n \<and> n \<le> 32) \<or> n = 133 \<or> n = 160)"

definition py_strip :: "string \<Rightarrow> string" where
  \<comment> \<open>\<open>s.strip()\<close>: drop the whitespace before the first and after the last other character.\<close>
  "py_strip s = rev (dropWhile py_isspace (rev (dropWhile py_isspace s)))"

definition py_lower_char :: "char \<Rightarrow> char" where
  \<comment> \<open>\<open>str.lower\<close> on one code point below 256: A..Z and the Latin-1 capitals but the
      multiplication sign.\<close>
  "py_lower_char c =
     (let n = of_char c :: nat
      in if (65 \<le> n \<and> n \<le> 90) \<or> (192 \<le> n \<and> n \<le> 222 \<and> n \<noteq> 215)
         then char_of (n + 32) else c)"

definition py_lower :: "string \<Rightarrow> string" where
  "py_lower s = map py_lower_char s"

definition digit_char :: "nat \<Rightarrow> char" where
  "digit_char d = char_of (48 + d)"

fun py_str_nat :: "nat \<Rightarrow> string" where
  "py_str_nat n =
     (if n < 10 then [digit_char n] else py_str_nat (n div 10) @ [digit_char (n mod 10)])"

declare py_str_nat.simps [simp del]

definition py_str_int :: "int \<Rightarrow> string" where
  \<comment> \<open>\<open>str(i)\<close> for a Python int: decimal digits, a minus sign when negative.\<close>
  "py_str_int i = (if i < 0 then CHR ''-'' # py_str_nat (nat (- i)) else py_str_nat (nat i))"

datatype py_value = PyStr string | PyInt int

fun py_str :: "py_value \<Rightarrow> string" where
  \<comment> \<open>What \<open>format(v, "")\<close> gives for the two kinds of value the program passes.\<close>
  "py_str (PyStr s) = s"
| "py_str (PyInt i) = py_str_int i"

section \<open>Backend clients: \<open>get_llm_by_provider\<close> and \<open>load_llm\<close>\<close>

text \<open>
  Constructing a client of the orchestration library builds a configuration object; no
  request is sent. The clients are modelled by the keyword arguments the source passes:
  temperature, \<open>max_tokens\<close> (where given), model name and API key.
\<close>

datatype llm_client =
    OpenAI rat nat string string
  | ChatOpenAI rat string string
  | ChatAnthropic rat nat string string
  | ChatGroq rat nat string string

definition get_llm_by_provider :: "string \<Rightarrow> string \<Rightarrow> llm_client" where
  "get_llm_by_provider provider api_key =
     (if provider = ''openai'' then
        OpenAI (7 / 10) 1024 ''gpt-3.5-turbo-instruct'' api_key
      else if provider = ''openai-chat'' then
        ChatOpenAI (7 / 10) ''gpt-3.5-turbo'' api_key
      else if provider = ''anthropic'' then
        ChatAnthropic (7 / 10) 1024 ''claude-2'' api_key
      else
        OpenAI (7 / 10) 1024 ''gpt-3.5-turbo-instruct'' api_key)"

definition load_llm_client :: "string \<Rightarrow> llm_client" where
  \<comment> \<open>The body of \<open>load_llm\<close> in app.py: the client it builds when the cache has none.\<close>
  "load_llm_client api_key = ChatGroq (7 / 10) 1024 ''llama3-8b-8192'' api_key"

section \<open>Errors\<close>

text \<open>
  Every exception the modelled code can raise is a value. \<open>MissingVariable\<close> is the
  formatter's \<open>KeyError\<close>, \<open>MalformedTemplate\<close> its \<open>ValueError\<close> on a stray brace,
  \<open>MissingInputKeys\<close> the chain's \<open>ValueError\<close> on absent inputs, \<open>BackendError\<close> whatever
  the completion call raises.
\<close>

datatype py_error =
    MissingVariable string
  | MalformedTemplate string
  | UnsupportedField string
  | MissingInputKeys "string list"
  | InvalidType string
  | BackendError string

fun error_text :: "py_error \<Rightarrow> string" where
  \<comment> \<open>\<open>str(e)\<close>, as the handler in app.py shows it; the wording of the library's own
      messages is abridged.\<close>
  "error_text (MissingVariable n) = CHR 0x27 # n @ [CHR 0x27]"
| "error_text (MalformedTemplate m) = m"
| "error_text (UnsupportedField n) = n"
| "error_text (MissingInputKeys ks) = ''Missing some input keys: '' @ concat ks"
| "error_text (InvalidType m) = m"
| "error_text (BackendError m) = m"

fun on_ok :: "('a \<Rightarrow> 'b) \<Rightarrow> py_error + 'a \<Rightarrow> py_error + 'b" where
  \<comment> \<open>Continue with the value, or pass the exception on.\<close>
  "on_ok f (Inl e) = Inl e"
| "on_ok f (Inr x) = Inr (f x)"

section \<open>\<open>PromptTemplate\<close>: rendering by substitution\<close>

text \<open>
  Modelled from the spec: \<open>PromptTemplate.format\<close> belongs to the orchestration library and
  is not under src/. Section 4.1: rendering is pure text substitution, placeholders are
  literal markers substituted verbatim, a required variable that is absent is an error.
  The library renders with Python's \<open>str.format\<close> rules, which the model follows in one
  pass from left to right: \<open>{{\<close> and \<open>}}\<close> stand for one brace, \<open>{name}\<close> is replaced by
  \<open>format(kwargs[name], "")\<close>, a single brace is an error. A substituted value is not
  scanned again. Fields with a conversion, a format specification, an attribute, an index
  or nested braces, which no template of the program has, are reported as
  \<open>UnsupportedField\<close>; so are the empty and the numeric field name, which \<open>str.format\<close>
  reads as a position.

  The second argument is where the scan stands: in literal text, just after an opening
  or a closing brace, or inside \<open>{...}\<close> with the field name read so far (reversed).
\<close>

type_synonym kwargs = "string \<rightharpoonup> py_value"

definition is_digit :: "char \<Rightarrow> bool" where
  "is_digit c = (let n = of_char c :: nat in 48 \<le> n \<and> n \<le> 57)"

datatype scan_mode = Text | AfterOpen | AfterClose | InField string

fun vformat :: "kwargs \<Rightarrow> scan_mode \<Rightarrow> string \<Rightarrow> py_error + string" where
  \<comment> \<open>Modelled from the spec: the formatter behind \<open>PromptTemplate.format\<close>, which is
      library code; the first error met from the left is the one raised.\<close>
  "vformat kw Text [] = Inr []"
| "vformat kw AfterOpen [] = Inl (MalformedTemplate ''Single { encountered in format string'')"
| "vformat kw AfterClose [] = Inl (MalformedTemplate ''Single } encountered in format string'')"
| "vformat kw (InField f) [] = Inl (MalformedTemplate ''expected } before end of string'')"
| "vformat kw Text (c # cs) =
     (if c = CHR ''{'' then vformat kw AfterOpen cs
      else if c = CHR ''}'' then vformat kw AfterClose cs
      else on_ok ((#) c) (vformat kw Text cs))"
| "vformat kw AfterOpen (c # cs) =
     (if c = CHR ''{'' then on_ok ((#) c) (vformat kw Text cs)
      else if c = CHR ''}'' then Inl (UnsupportedField [])
      else if c \<in> set ''!:.[]'' then Inl (UnsupportedField [c])
      else vformat kw (InField [c]) cs)"
| "vformat kw AfterClose (c # cs) =
     (if c = CHR ''}'' then on_ok ((#) c) (vformat kw Text cs)
      else Inl (MalformedTemplate ''Single } encountered in format string''))"
| "vformat kw (InField f) (c # cs) =
     (if c = CHR ''}'' then
        (if list_all is_digit f then Inl (UnsupportedField (rev f))
         else case kw (rev f) of
                None \<Rightarrow> Inl (MissingVariable (rev f))
              | Some v \<Rightarrow> on_ok ((@) (py_str v)) (vformat kw Text cs))
      else if c \<in> set ''{!:.[]'' then Inl (UnsupportedField (rev (c # f)))
      else vformat kw (InField (c # f)) cs)"

record prompt_template =
  input_variables :: "string list"
  template :: string

definition format_prompt :: "prompt_template \<Rightarrow> kwargs \<Rightarrow> py_error + string" where
  \<comment> \<open>Modelled from the spec: \<open>PromptTemplate.format(**kw)\<close>, the \<open>render\<close> of section 4.1.\<close>
  "format_prompt pt kw = vformat kw Text (template pt)"

section \<open>The templates of the program\<close>

definition email_template :: string where
  \<comment> \<open>app.py, lines 47-80\<close>
  "email_template =
     ''\<newline>'' @
     ''You are an AI Email Marketing Expert with years of experience crafting engaging, professional emails. Your task is to generate a complete email based on the subject line provided.\<newline>'' @
     ''\<newline>'' @
     ''SUBJECT: {subject}\<newline>'' @
     ''\<newline>'' @
     ''Please create a comprehensive email that includes:\<newline>'' @
     ''1. An attention-grabbing subject line that builds on the provided subject\<newline>'' @
     ''2. A personalized greeting with [Name] placeholder\<newline>'' @
     ''3. A concise but compelling body (2-3 paragraphs)\<newline>'' @
     ''4. A clear call-to-action\<newline>'' @
     ''5. A professional sign-off\<newline>'' @
     ''\<newline>'' @
     ''Adjust the tone and style to match the context of the subject (formal, urgent, friendly, promotional, etc.).\<newline>'' @
     ''\<newline>'' @
     ''The email should follow this structure:\<newline>'' @
     ''---\<newline>'' @
     ''Subject: [Enhanced Subject Line]\<newline>'' @
     ''\<newline>'' @
     ''Dear [Name],\<newline>'' @
     ''\<newline>'' @
     ''[First paragraph: Introduction and hook related to the subject]\<newline>'' @
     ''\<newline>'' @
     ''[Second paragraph: Key details and value proposition]\<newline>'' @
     ''\<newline>'' @
     ''[Third paragraph (optional): Additional information or urgency element]\<newline>'' @
     ''\<newline>'' @
     ''[Clear call-to-action with specific instructions]\<newline>'' @
     ''\<newline>'' @
     ''[Professional sign-off],\<newline>'' @
     ''[Company Name]\<newline>'' @
     ''---\<newline>'' @
     ''\<newline>'' @
     ''Keep the email concise, engaging, and focused on driving action. Use persuasive language throughout.\<newline>''"

definition analysis_template :: string where
  \<comment> \<open>advanced_features.py, lines 41-51\<close>
  "analysis_template =
     ''\<newline>'' @
     ''    You're an expert email marketing analyst. First, analyze the following email subject to determine:\<newline>'' @
     ''    1. The primary purpose (promotional, informational, invitation, etc.)\<newline>'' @
     ''    2. The appropriate tone (formal, conversational, urgent, etc.)\<newline>'' @
     ''    3. The target audience characteristics\<newline>'' @
     ''    4. Key points that should be emphasized\<newline>'' @
     ''\<newline>'' @
     ''    SUBJECT: {subject}\<newline>'' @
     ''\<newline>'' @
     ''    Provide your analysis:\<newline>'' @
     ''    ''"

definition advanced_email_template :: string where
  \<comment> \<open>advanced_features.py, lines 65-99: the local \<open>email_template\<close> of \<open>create_advanced_email_chain\<close>\<close>
  "advanced_email_template =
     ''\<newline>'' @
     ''    You are an AI Email Marketing Expert with years of experience crafting engaging, professional emails.\<newline>'' @
     ''    \<newline>'' @
     ''    SUBJECT: {subject}\<newline>'' @
     ''    \<newline>'' @
     ''    Here's an analysis of the subject that you should use to guide your email creation:\<newline>'' @
     ''    {analysis}\<newline>'' @
     ''    \<newline>'' @
     ''    Based on this analysis, create a comprehensive email that includes:\<newline>'' @
     ''    1. An attention-grabbing subject line that builds on the provided subject\<newline>'' @
     ''    2. A personalized greeting with [Name] placeholder\<newline>'' @
     ''    3. A concise but compelling body (2-3 paragraphs)\<newline>'' @
     ''    4. A clear call-to-action\<newline>'' @
     ''    5. A professional sign-off\<newline>'' @
     ''    \<newline>'' @
     ''    The email should follow this structure:\<newline>'' @
     ''    ---\<newline>'' @
     ''    Subject: [Enhanced Subject Line]\<newline>'' @
     ''    \<newline>'' @
     ''    Dear [Name],\<newline>'' @
     ''    \<newline>'' @
     ''    [First paragraph: Introduction and hook related to the subject]\<newline>'' @
     ''    \<newline>'' @
     ''    [Second paragraph: Key details and value proposition]\<newline>'' @
     ''    \<newline>'' @
     ''    [Third paragraph (optional): Additional information or urgency element]\<newline>'' @
     ''    \<newline>'' @
     ''    [Clear call-to-action with specific instructions]\<newline>'' @
     ''    \<newline>'' @
     ''    [Professional sign-off],\<newline>'' @
     ''    [Company Name]\<newline>'' @
     ''    ---\<newline>'' @
     ''    \<newline>'' @
     ''    Keep the email concise, engaging, and focused on driving action. Use persuasive language throughout.\<newline>'' @
     ''    ''"

definition follow_up_template :: string where
  \<comment> \<open>advanced_features.py, lines 131-164\<close>
  "follow_up_template =
     ''\<newline>'' @
     ''    You are an AI Email Marketing Expert with years of experience crafting engaging, professional emails.\<newline>'' @
     ''    \<newline>'' @
     ''    CURRENT SUBJECT: {subject}\<newline>'' @
     ''    \<newline>'' @
     ''    PREVIOUS EMAIL HISTORY:\<newline>'' @
     ''    {chat_history}\<newline>'' @
     ''    \<newline>'' @
     ''    Based on the current subject and the previous email history, create a follow-up email that:\<newline>'' @
     ''    1. References the previous communication\<newline>'' @
     ''    2. Maintains continuity in tone and messaging\<newline>'' @
     ''    3. Advances the conversation or objective\<newline>'' @
     ''    4. Includes all standard email components (greeting, body, CTA, sign-off)\<newline>'' @
     ''    \<newline>'' @
     ''    The email should follow this structure:\<newline>'' @
     ''    ---\<newline>'' @
     ''    Subject: [Follow-up Subject Line]\<newline>'' @
     ''    \<newline>'' @
     ''    Dear [Name],\<newline>'' @
     ''    \<newline>'' @
     ''    [First paragraph: Reference to previous communication]\<newline>'' @
     ''    \<newline>'' @
     ''    [Second paragraph: New information or next steps]\<newline>'' @
     ''    \<newline>'' @
     ''    [Third paragraph (optional): Additional details or urgency]\<newline>'' @
     ''    \<newline>'' @
     ''    [Clear call-to-action with specific instructions]\<newline>'' @
     ''    \<newline>'' @
     ''    [Professional sign-off],\<newline>'' @
     ''    [Company Name]\<newline>'' @
     ''    ---\<newline>'' @
     ''    \<newline>'' @
     ''    Keep the email concise, engaging, and focused on driving action.\<newline>'' @
     ''    ''"

definition base_block :: string where
  \<comment> \<open>advanced_features.py, lines 185-198: the initial value of \<open>template\<close>\<close>
  "base_block =
     ''\<newline>'' @
     ''    You are an AI Email Marketing Expert with years of experience crafting engaging, professional emails.\<newline>'' @
     ''    \<newline>'' @
     ''    SUBJECT: {subject}\<newline>'' @
     ''    REQUESTED TONE: {tone}\<newline>'' @
     ''    EMAIL LENGTH: {length} paragraphs\<newline>'' @
     ''    \<newline>'' @
     ''    Please create a {tone} email that includes:\<newline>'' @
     ''    1. An attention-grabbing subject line that builds on the provided subject\<newline>'' @
     ''    2. A personalized greeting with [Name] placeholder\<newline>'' @
     ''    3. A body with exactly {length} paragraphs\<newline>'' @
     ''    4. A clear call-to-action\<newline>'' @
     ''    5. A professional sign-off\<newline>'' @
     ''    ''"

definition ps_instruction_block :: string where
  \<comment> \<open>advanced_features.py, lines 202-204\<close>
  "ps_instruction_block =
     ''\<newline>'' @
     ''    6. A brief PS line that adds value or creates urgency\<newline>'' @
     ''    ''"

definition formal_block :: string where
  \<comment> \<open>advanced_features.py, lines 208-211\<close>
  "formal_block =
     ''\<newline>'' @
     ''    Use formal language, avoid contractions, and maintain professional distance.\<newline>'' @
     ''    Address the recipient with proper titles and use industry-specific terminology where appropriate.\<newline>'' @
     ''    ''"

definition friendly_block :: string where
  \<comment> \<open>advanced_features.py, lines 213-216\<close>
  "friendly_block =
     ''\<newline>'' @
     ''    Use a warm, conversational tone with a personal touch.\<newline>'' @
     ''    Include light humor where appropriate and focus on building relationship.\<newline>'' @
     ''    ''"

definition urgent_block :: string where
  \<comment> \<open>advanced_features.py, lines 218-221\<close>
  "urgent_block =
     ''\<newline>'' @
     ''    Create a sense of urgency throughout the email.\<newline>'' @
     ''    Use time-sensitive language and emphasize limited availability or deadlines.\<newline>'' @
     ''    ''"

definition structure_block :: string where
  \<comment> \<open>advanced_features.py, lines 224-237\<close>
  "structure_block =
     ''\<newline>'' @
     ''    The email should follow this structure:\<newline>'' @
     ''    ---\<newline>'' @
     ''    Subject: [Enhanced Subject Line]\<newline>'' @
     ''    \<newline>'' @
     ''    Dear [Name],\<newline>'' @
     ''    \<newline>'' @
     ''    [Email body with exactly {length} paragraphs]\<newline>'' @
     ''    \<newline>'' @
     ''    [Clear call-to-action with specific instructions]\<newline>'' @
     ''    \<newline>'' @
     ''    [Professional sign-off],\<newline>'' @
     ''    [Company Name]\<newline>'' @
     ''    ''"

definition ps_block :: string where
  \<comment> \<open>advanced_features.py, lines 241-244\<close>
  "ps_block =
     ''\<newline>'' @
     ''    \<newline>'' @
     ''    P.S. [Brief value-add or urgency statement]\<newline>'' @
     ''    ''"

definition footer_block :: string where
  \<comment> \<open>advanced_features.py, lines 246-250\<close>
  "footer_block =
     ''\<newline>'' @
     ''    ---\<newline>'' @
     ''    \<newline>'' @
     ''    Keep the email concise, engaging, and focused on driving action. Use persuasive language throughout.\<newline>'' @
     ''    ''"

definition create_custom_email_template :: "string \<Rightarrow> int \<Rightarrow> bool \<Rightarrow> prompt_template" where
  \<comment> \<open>advanced_features.py, lines 181-255. Each \<open>t\<close> is the value of \<open>template\<close> after one
      statement; \<open>length'\<close> is the parameter \<open>length\<close>, which the body never reads.\<close>
  "create_custom_email_template tone length' include_ps =
     (let t0 = base_block;
          t1 = (if include_ps then t0 @ ps_instruction_block else t0);
          t2 = (if tone = ''formal'' then t1 @ formal_block
                else if tone = ''friendly'' then t1 @ friendly_block
                else if tone = ''urgent'' then t1 @ urgent_block
                else t1);
          t3 = t2 @ structure_block;
          t4 = (if include_ps then t3 @ ps_block else t3);
          t5 = t4 @ footer_block
      in \<lparr>input_variables = [''subject'', ''tone'', ''length''], template = t5\<rparr>)"

section \<open>The backend and the state of the application\<close>

text \<open>
  The completion service is a parameter: given the requests made so far, a client and a
  prompt, it answers with a text or raises. A request is recorded in \<open>calls\<close>, oldest
  first, whether it succeeds or not. \<open>llm_cache\<close> is the entry of \<open>st.cache_resource\<close> for
  \<open>load_llm\<close>, \<open>session_state\<close> the fields of \<open>st.session_state\<close> the handlers use, and
  \<open>messages\<close> what \<open>st.warning\<close> and \<open>st.error\<close> have displayed.
\<close>

type_synonym backend = "(llm_client \<times> string) list \<Rightarrow> llm_client \<Rightarrow> string \<Rightarrow> py_error + string"

datatype ui_message = Warning string | Error string

record world =
  calls :: "(llm_client \<times> string) list"
  llm_cache :: "llm_client option"
  session_state :: "string \<rightharpoonup> string"
  messages :: "ui_message list"

definition backend_call :: "backend \<Rightarrow> llm_client \<Rightarrow> string \<Rightarrow> world \<Rightarrow> (py_error + string) \<times> world" where
  \<comment> \<open>Modelled from the spec: the \<open>complete(prompt)\<close> of section 6, one request to the
      service of the client.\<close>
  "backend_call be client p w = (be (calls w) client p, w\<lparr>calls := calls w @ [(client, p)]\<rparr>)"

definition load_llm :: "string \<Rightarrow> world \<Rightarrow> llm_client \<times> world" where
  \<comment> \<open>app.py, lines 37-44. The parameter is named \<open>_api_key\<close>: \<open>st.cache_resource\<close> leaves a
      parameter whose name starts with an underscore out of the cache key, so the first
      client built is the one returned from then on.\<close>
  "load_llm api_key w =
     (case llm_cache w of
        Some client \<Rightarrow> (client, w)
      | None \<Rightarrow> (load_llm_client api_key, w\<lparr>llm_cache := Some (load_llm_client api_key)\<rparr>))"

section \<open>Chains\<close>

text \<open>
  Modelled from the spec: \<open>LLMChain\<close>, \<open>SequentialChain\<close> and \<open>ConversationBufferMemory\<close>
  belong to the orchestration library and are not under src/. Section 4.2: a step renders
  its template with the variables, calls \<open>complete\<close> and contributes the text under its
  output key; a pipeline runs its steps in order, each seeing the outputs of the steps
  before it, and a failure aborts the remaining steps; in memory mode the prior
  (subject, email) pairs are formatted as ordered transcript text into the history
  variable, and the new pair is appended after a successful call.
\<close>

datatype chat_message = HumanMessage string | AIMessage string

record conversation_buffer_memory =
  memory_key :: string
  input_key :: string
  chat_memory :: "chat_message list"

fun message_line :: "chat_message \<Rightarrow> string" where
  "message_line (HumanMessage s) = ''Human: '' @ s"
| "message_line (AIMessage s) = ''AI: '' @ s"

fun join_lines :: "string list \<Rightarrow> string" where
  \<comment> \<open>\<open>"\n".join(lines)\<close>\<close>
  "join_lines [] = []"
| "join_lines [l] = l"
| "join_lines (l # ls) = l @ CHR 0x0A # join_lines ls"

definition load_memory_variables :: "conversation_buffer_memory \<Rightarrow> kwargs" where
  \<comment> \<open>Modelled from the spec: the history variable, the prior messages as transcript text,
      one line \<open>Human: ...\<close> or \<open>AI: ...\<close> each.\<close>
  "load_memory_variables m = [memory_key m \<mapsto> PyStr (join_lines (map message_line (chat_memory m)))]"

definition save_context ::
  "conversation_buffer_memory \<Rightarrow> kwargs \<Rightarrow> string \<Rightarrow> py_error + conversation_buffer_memory" where
  \<comment> \<open>Modelled from the spec: appends the input under \<open>input_key\<close> and the output text of
      the call, as a new pair.\<close>
  "save_context m inputs output_text =
     (case inputs (input_key m) of
        None \<Rightarrow> Inl (MissingVariable (input_key m))
      | Some (PyInt i) \<Rightarrow> Inl (InvalidType (input_key m))
      | Some (PyStr s) \<Rightarrow>
          Inr (m\<lparr>chat_memory := chat_memory m @ [HumanMessage s, AIMessage output_text]\<rparr>))"

record llm_chain =
  llm :: llm_client
  prompt :: prompt_template
  output_key :: string
  memory :: "conversation_buffer_memory option"

definition chain_call ::
  "backend \<Rightarrow> llm_chain \<Rightarrow> kwargs \<Rightarrow> world \<Rightarrow> (py_error + (kwargs \<times> kwargs \<times> llm_chain)) \<times> world" where
  \<comment> \<open>Modelled from the spec: one call of an \<open>LLMChain\<close>. It gives the inputs completed
      with the memory variables, the outputs, and the chain with its memory updated. Only
      the declared input variables reach the formatter; the memory is written after a
      successful call only.\<close>
  "chain_call be ch inputs w =
     (let full = (case memory ch of None \<Rightarrow> inputs | Some m \<Rightarrow> inputs ++ load_memory_variables m);
          missing = filter (\<lambda>k. full k = None) (input_variables (prompt ch))
      in if missing \<noteq> [] then (Inl (MissingInputKeys missing), w)
         else case format_prompt (prompt ch) (full |` set (input_variables (prompt ch))) of
                Inl e \<Rightarrow> (Inl e, w)
              | Inr p \<Rightarrow>
                  (case backend_call be (llm ch) p w of
                     (Inl e, w') \<Rightarrow> (Inl e, w')
                   | (Inr text, w') \<Rightarrow>
                       (case memory ch of
                          None \<Rightarrow> (Inr (full, [output_key ch \<mapsto> PyStr text], ch), w')
                        | Some m \<Rightarrow>
                            (case save_context m full text of
                               Inl e \<Rightarrow> (Inl e, w')
                             | Inr m' \<Rightarrow>
                                 (Inr (full, [output_key ch \<mapsto> PyStr text], ch\<lparr>memory := Some m'\<rparr>),
                                  w')))))"

definition chain_run ::
  "backend \<Rightarrow> llm_chain \<Rightarrow> kwargs \<Rightarrow> world \<Rightarrow> (py_error + (string \<times> llm_chain)) \<times> world" where
  \<comment> \<open>Modelled from the spec: \<open>chain.run(**kw)\<close>, the text under the chain's output key.\<close>
  "chain_run be ch inputs w =
     (case chain_call be ch inputs w of
        (Inl e, w') \<Rightarrow> (Inl e, w')
      | (Inr (full, outputs, ch'), w') \<Rightarrow>
          (case outputs (output_key ch) of
             Some (PyStr text) \<Rightarrow> (Inr (text, ch'), w')
           | _ \<Rightarrow> (Inl (MissingVariable (output_key ch)), w')))"

record sequential_chain =
  chains :: "llm_chain list"
  chain_input_variables :: "string list"
  output_variables :: "string list"

fun run_chains ::
  "backend \<Rightarrow> llm_chain list \<Rightarrow> kwargs \<Rightarrow> world \<Rightarrow> (py_error + (kwargs \<times> llm_chain list)) \<times> world" where
  \<comment> \<open>Modelled from the spec: the steps of a \<open>SequentialChain\<close> in order; each sees the
      known values and adds its outputs to them, and a failure ends the run.\<close>
  "run_chains be [] known w = (Inr (known, []), w)"
| "run_chains be (ch # chs) known w =
     (case chain_call be ch known w of
        (Inl e, w') \<Rightarrow> (Inl e, w')
      | (Inr (full, outputs, ch'), w') \<Rightarrow>
          (case run_chains be chs (known ++ outputs) w' of
             (Inl e, w'') \<Rightarrow> (Inl e, w'')
           | (Inr (known', chs'), w'') \<Rightarrow> (Inr (known', ch' # chs'), w'')))"

definition sequential_call ::
  "backend \<Rightarrow> sequential_chain \<Rightarrow> kwargs \<Rightarrow> world \<Rightarrow> (py_error + (kwargs \<times> sequential_chain)) \<times> world" where
  \<comment> \<open>Modelled from the spec: one call of a \<open>SequentialChain\<close>, giving the inputs
      together with the output variables. The checks the library makes when the chain is
      constructed are not modelled.\<close>
  "sequential_call be sc inputs w =
     (let missing = filter (\<lambda>k. inputs k = None) (chain_input_variables sc)
      in if missing \<noteq> [] then (Inl (MissingInputKeys missing), w)
         else case run_chains be (chains sc) inputs w of
                (Inl e, w') \<Rightarrow> (Inl e, w')
              | (Inr (known, chs'), w') \<Rightarrow>
                  (case filter (\<lambda>k. known k = None) (output_variables sc) of
                     [] \<Rightarrow> (Inr (inputs ++ (known |` set (output_variables sc)),
                                 sc\<lparr>chains := chs'\<rparr>), w')
                   | k # ks \<Rightarrow> (Inl (MissingVariable k), w')))"

section \<open>The chains the program builds\<close>

definition create_advanced_email_chain :: "llm_client \<Rightarrow> sequential_chain" where
  \<comment> \<open>advanced_features.py, lines 37-120\<close>
  "create_advanced_email_chain client =
     (let analysis_prompt = \<lparr>input_variables = [''subject''], template = analysis_template\<rparr>;
          analysis_chain = \<lparr>llm = client, prompt = analysis_prompt, output_key = ''analysis'',
                            memory = None\<rparr>;
          email_prompt = \<lparr>input_variables = [''subject'', ''analysis''],
                          template = advanced_email_template\<rparr>;
          email_chain = \<lparr>llm = client, prompt = email_prompt, output_key = ''email'',
                         memory = None\<rparr>
      in \<lparr>chains = [analysis_chain, email_chain],
          chain_input_variables = [''subject''],
          output_variables = [''analysis'', ''email'']\<rparr>)"

definition create_email_chain_with_memory :: "llm_client \<Rightarrow> llm_chain" where
  \<comment> \<open>advanced_features.py, lines 123-178; \<open>text\<close> is the output key an \<open>LLMChain\<close> has
      when none is given.\<close>
  "create_email_chain_with_memory client =
     (let memory0 = \<lparr>memory_key = ''chat_history'', input_key = ''subject'', chat_memory = []\<rparr>;
          follow_up_prompt = \<lparr>input_variables = [''subject'', ''chat_history''],
                              template = follow_up_template\<rparr>
      in \<lparr>llm = client, prompt = follow_up_prompt, output_key = ''text'',
          memory = Some memory0\<rparr>)"

section \<open>Generating an email\<close>

definition generate_email ::
  "backend \<Rightarrow> string \<Rightarrow> string \<Rightarrow> string \<Rightarrow> world \<Rightarrow> (py_error + string) \<times> world" where
  \<comment> \<open>app.py, lines 83-102\<close>
  "generate_email be subject api_key model_type w =
     (let (client, w1) = (if model_type = ''openai'' then load_llm api_key w
                          else load_llm api_key w);
          email_prompt = \<lparr>input_variables = [''subject''], template = email_template\<rparr>;
          chain = \<lparr>llm = client, prompt = email_prompt, output_key = ''text'', memory = None\<rparr>
      in case chain_run be chain [''subject'' \<mapsto> PyStr subject] w1 of
           (Inl e, w2) \<Rightarrow> (Inl e, w2)
         | (Inr (result, ch'), w2) \<Rightarrow> (Inr (py_strip result), w2))"

definition generate_email_with_settings ::
  "backend \<Rightarrow> string \<Rightarrow> string \<Rightarrow> string \<Rightarrow> string \<Rightarrow> int \<Rightarrow> bool \<Rightarrow> world
     \<Rightarrow> (py_error + string) \<times> world" where
  \<comment> \<open>advanced_features.py, lines 294-317\<close>
  "generate_email_with_settings be subject api_key model_type tone length' include_ps w =
     (let client = get_llm_by_provider model_type api_key;
          custom_prompt = create_custom_email_template (py_lower tone) length' include_ps;
          chain = \<lparr>llm = client, prompt = custom_prompt, output_key = ''text'', memory = None\<rparr>
      in case chain_run be chain
                [''subject'' \<mapsto> PyStr subject, ''tone'' \<mapsto> PyStr (py_lower tone),
                 ''length'' \<mapsto> PyInt length'] w of
           (Inl e, w') \<Rightarrow> (Inl e, w')
         | (Inr (result, ch'), w') \<Rightarrow> (Inr (py_strip result), w'))"

definition generate_button :: "backend \<Rightarrow> string \<Rightarrow> string \<Rightarrow> string \<Rightarrow> world \<Rightarrow> world" where
  \<comment> \<open>app.py, lines 163-177: the body run when "Generate Email" is pressed;
      \<open>model_type\<close> is \<open>selected_model["type"]\<close>.\<close>
  "generate_button be subject api_key model_type w =
     (if subject \<noteq> [] then
        (case generate_email be subject api_key model_type w of
           (Inr email_content, w') \<Rightarrow>
             w'\<lparr>session_state :=
                  (session_state w')(''generated_email'' \<mapsto> email_content, ''subject'' \<mapsto> subject)\<rparr>
         | (Inl e, w') \<Rightarrow>
             w'\<lparr>messages := messages w' @ [Error (''Error generating email: '' @ error_text e)]\<rparr>)
      else w\<lparr>messages := messages w @ [Warning ''Please enter a subject for your email.'']\<rparr>)"

section \<open>Notions used to state the properties\<close>

fun run_generations ::
  "backend \<Rightarrow> llm_chain \<Rightarrow> string list \<Rightarrow> world
     \<Rightarrow> (py_error + (string list \<times> llm_chain)) \<times> world" where
  \<comment> \<open>Successive generations \<open>chain.run(subject=s)\<close> through one chain object, one per
      subject, stopping at the first that raises; the results in order.\<close>
  "run_generations be ch [] w = (Inr ([], ch), w)"
| "run_generations be ch (s # ss) w =
     (case chain_run be ch [''subject'' \<mapsto> PyStr s] w of
        (Inl e, w') \<Rightarrow> (Inl e, w')
      | (Inr (r, ch'), w') \<Rightarrow>
          (case run_generations be ch' ss w' of
             (Inl e, w'') \<Rightarrow> (Inl e, w'')
           | (Inr (rs, ch''), w'') \<Rightarrow> (Inr (r # rs, ch''), w'')))"


fun template_fields :: "scan_mode \<Rightarrow> string \<Rightarrow> string list option" where
  \<comment> \<open>The field names of a template in the order they occur; \<open>None\<close> for a template
      that is malformed or has an escaped brace or a field the model does not support.\<close>
  "template_fields Text [] = Some []"
| "template_fields AfterOpen [] = None"
| "template_fields AfterClose cs = None"
| "template_fields (InField f) [] = None"
| "template_fields Text (c # cs) =
     (if c = CHR ''{'' then template_fields AfterOpen cs
      else if c = CHR ''}'' then None
      else template_fields Text cs)"
| "template_fields AfterOpen (c # cs) =
     (if c \<in> set ''{}!:.[]'' then None else template_fields (InField [c]) cs)"
| "template_fields (InField f) (c # cs) =
     (if c = CHR ''}'' then
        (if list_all is_digit f then None
         else map_option ((#) (rev f)) (template_fields Text cs))
      else if c \<in> set ''{!:.[]'' then None
      else template_fields (InField (c # f)) cs)"






definition exchanges :: "string list \<Rightarrow> string list \<Rightarrow> chat_message list" where
  \<comment> \<open>The messages of the (subject, result) pairs, oldest first.\<close>
  "exchanges subjects results =
     concat (map (\<lambda>(s, r). [HumanMessage s, AIMessage r]) (zip subjects results))"

definition chain_with_history :: "llm_client \<Rightarrow> chat_message list \<Rightarrow> llm_chain" where
  \<comment> \<open>The chain of \<open>create_email_chain_with_memory\<close> once its memory holds \<open>msgs\<close>.\<close>
  "chain_with_history client msgs =
     (create_email_chain_with_memory client)
       \<lparr>memory := Some \<lparr>memory_key = ''chat_history'', input_key = ''subject'',
                          chat_memory = msgs\<rparr>\<rparr>"

subsection \<open>States and stub backends of the examples\<close>

definition empty_world :: world where
  \<comment> \<open>A fresh session: no request made, nothing cached, stored or displayed.\<close>
  "empty_world = \<lparr>calls = [], llm_cache = None, session_state = Map.empty, messages = []\<rparr>"

definition prior_world :: world where
  \<comment> \<open>A session that already displays an email.\<close>
  "prior_world = empty_world\<lparr>session_state := [''generated_email'' \<mapsto> ''old email'']\<rparr>"



definition padded_backend :: backend where
  "padded_backend sent client p = Inr ''  Dear [Name],\<newline>''"

definition counting_backend :: backend where
  \<comment> \<open>Answers with the number of requests made before.\<close>
  "counting_backend sent client p = Inr (''reply '' @ py_str_int (int (length sent)))"

definition flaky_backend :: backend where
  \<comment> \<open>Raises on the first request, answers from then on.\<close>
  "flaky_backend sent client p =
     (if sent = [] then Inl (BackendError ''timeout'') else Inr ''  Dear [Name],\<newline>'')"

section \<open>Auxiliary lemmas\<close>

subsection \<open>Stripping\<close>

lemma py_strip_decomp:
  "\<exists>a b. r = a @ py_strip r @ b \<and> list_all py_isspace a \<and> list_all py_isspace b"
proof -
  define r' where "r' = dropWhile py_isspace r"
  have 1: "r = takeWhile py_isspace r @ r'" by (simp add: r'_def)
  have "r' = rev (takeWhile py_isspace (rev r') @ dropWhile py_isspace (rev r'))"
    by (simp only: takeWhile_dropWhile_id rev_rev_ident)
  also have "\<dots> = py_strip r @ rev (takeWhile py_isspace (rev r'))"
    by (simp only: rev_append py_strip_def r'_def)
  finally have 2: "r' = py_strip r @ rev (takeWhile py_isspace (rev r'))" .
  have 3: "list_all py_isspace (takeWhile py_isspace r)"
    by (simp add: list_all_iff) (meson set_takeWhileD)
  have 4: "list_all py_isspace (rev (takeWhile py_isspace (rev r')))"
    by (simp add: list_all_iff) (meson set_takeWhileD)
  from 1 2 3 4 show ?thesis by metis
qed

lemma py_strip_ends:
  assumes "py_strip r \<noteq> []"
  shows "\<not> py_isspace (hd (py_strip r)) \<and> \<not> py_isspace (last (py_strip r))"
proof -
  define r' where "r' = dropWhile py_isspace r"
  define d where "d = dropWhile py_isspace (rev r')"
  have s: "py_strip r = rev d" by (simp add: py_strip_def d_def r'_def)
  with assms have d: "d \<noteq> []" by simp
  then have r': "r' \<noteq> []" by (auto simp: d_def)
  have a: "\<not> py_isspace (hd r')" unfolding r'_def using r' hd_dropWhile r'_def by blast
  have b: "\<not> py_isspace (hd d)" unfolding d_def using d hd_dropWhile d_def by blast
  have "hd r' = last (rev r')" using r' by (simp add: last_rev)
  also have "\<dots> = last d"
    unfolding d_def using a r' calculation
    by (metis dropWhile_last last_in_set rev_is_Nil_conv)
  finally have c: "hd r' = last d" .
  have "hd (py_strip r) = last d" using d s by (simp add: hd_rev)
  moreover have "last (py_strip r) = hd d" using d s by (simp add: last_rev)
  ultimately show ?thesis using a b c by simp
qed

subsection \<open>Well-formed templates render\<close>

lemma template_fields_append:
  "template_fields m a = Some ns \<Longrightarrow> template_fields Text b = Some ms
   \<Longrightarrow> template_fields m (a @ b) = Some (ns @ ms)"
  by (induction m a arbitrary: ns rule: template_fields.induct) (auto split: if_splits)

lemma template_fields_appendI:
  "template_fields Text a = Some ns \<Longrightarrow> template_fields Text b = Some ms \<Longrightarrow> ns @ ms = r
   \<Longrightarrow> template_fields Text (a @ b) = Some r"
  using template_fields_append by blast

lemma vformat_ok:
  "template_fields m t = Some ns \<Longrightarrow> set ns \<subseteq> dom kw \<Longrightarrow> \<exists>out. vformat kw m t = Inr out"
  by (induction kw m t arbitrary: ns rule: vformat.induct)
     (fastforce split: if_splits option.splits)+

lemma vformat_cong_fields:
  "template_fields m t = Some ns \<Longrightarrow> (\<forall>n \<in> set ns. kw n = kw' n)
   \<Longrightarrow> vformat kw m t = vformat kw' m t"
  by (induction kw m t arbitrary: ns rule: vformat.induct)
     (auto split: if_splits option.splits)




lemma vformat_sublist:
  "template_fields m t = Some ns \<Longrightarrow> vformat kw m t = Inr out \<Longrightarrow> n \<in> set ns \<Longrightarrow> kw n = Some v
   \<Longrightarrow> sublist (py_str v) out"
proof (induction kw m t arbitrary: ns out rule: vformat.induct)
  case (5 kw c cs)
  then show ?case
    by (cases "vformat kw Text cs") (auto split: if_splits simp: sublist_Cons_right)
next
  case (6 kw c cs)
  then show ?case by (auto split: if_splits)
next
  case (8 kw f c cs)
  show ?case
  proof (cases "vformat kw Text cs")
    case (Inl e)
    with 8 show ?thesis by (auto split: if_splits option.splits)
  next
    case (Inr rest)
    with 8 show ?thesis
      by (auto split: if_splits option.splits simp: sublist_append)
  qed
qed simp_all

lemma vformat_append:
  "vformat kw m a = Inr x \<Longrightarrow> vformat kw Text b = Inr y \<Longrightarrow> vformat kw m (a @ b) = Inr (x @ y)"
proof (induction kw m a arbitrary: x rule: vformat.induct)
  case (5 kw c cs)
  then show ?case by (cases "vformat kw Text cs") (auto split: if_splits)
next
  case (6 kw c cs)
  then show ?case by (cases "vformat kw Text cs") (auto split: if_splits)
next
  case (7 kw c cs)
  then show ?case by (cases "vformat kw Text cs") (auto split: if_splits)
next
  case (8 kw f c cs)
  then show ?case
    by (cases "vformat kw Text cs") (auto split: if_splits option.splits)
qed simp_all

lemma vformat_piece:
  assumes a: "template_fields Text a = Some na" and l: "vformat kw Text l = Inr y"
    and out: "vformat kw Text (a @ l @ b) = Inr out" and dom: "set na \<subseteq> dom kw"
  shows "sublist y out"
proof -
  obtain x where x: "vformat kw Text a = Inr x" using vformat_ok [OF a dom] by auto
  have "\<exists>z. vformat kw Text b = Inr z"
  proof (cases "vformat kw Text b")
    case (Inr z) then show ?thesis by auto
  next
    case (Inl e)
    have "vformat kw m t = Inr u \<Longrightarrow> vformat kw Text b = Inl e \<Longrightarrow> vformat kw m (t @ b) = Inl e"
      for m t u
    proof (induction kw m t arbitrary: u rule: vformat.induct)
      case (5 kw c cs)
      then show ?case by (cases "vformat kw Text cs") (auto split: if_splits)
    next
      case (6 kw c cs)
      then show ?case by (cases "vformat kw Text cs") (auto split: if_splits)
    next
      case (7 kw c cs)
      then show ?case by (cases "vformat kw Text cs") (auto split: if_splits)
    next
      case (8 kw f c cs)
      then show ?case
        by (cases "vformat kw Text cs") (auto split: if_splits option.splits)
    qed simp_all
    from this [OF vformat_append [OF x l] Inl] out show ?thesis by simp
  qed
  then obtain z where z: "vformat kw Text b = Inr z" ..
  from vformat_append [OF x vformat_append [OF l z]] out have "out = x @ y @ z" by simp
  then show ?thesis by simp
qed



subsection \<open>The fields of the program's templates\<close>

lemma email_template_fields: "template_fields Text email_template = Some [''subject'']"
  unfolding email_template_def
  apply (rule template_fields_appendI, simp add: is_digit_def)+
  apply (simp_all add: is_digit_def)
  done

lemma analysis_template_fields: "template_fields Text analysis_template = Some [''subject'']"
  unfolding analysis_template_def
  apply (rule template_fields_appendI, simp add: is_digit_def)+
  apply (simp_all add: is_digit_def)
  done

lemma advanced_email_template_fields:
  "template_fields Text advanced_email_template = Some [''subject'', ''analysis'']"
  unfolding advanced_email_template_def
  apply (rule template_fields_appendI, simp add: is_digit_def)+
  apply (simp_all add: is_digit_def)
  done

lemma follow_up_template_fields:
  "template_fields Text follow_up_template = Some [''subject'', ''chat_history'']"
  unfolding follow_up_template_def
  apply (rule template_fields_appendI, simp add: is_digit_def)+
  apply (simp_all add: is_digit_def)
  done

lemma base_block_fields:
  "template_fields Text base_block = Some [''subject'', ''tone'', ''length'', ''tone'', ''length'']"
  unfolding base_block_def
  apply (rule template_fields_appendI, simp add: is_digit_def)+
  apply (simp_all add: is_digit_def)
  done

lemma ps_instruction_block_fields: "template_fields Text ps_instruction_block = Some []"
  by (simp add: ps_instruction_block_def)

lemma formal_block_fields: "template_fields Text formal_block = Some []"
  unfolding formal_block_def
  apply (rule template_fields_appendI, simp add: is_digit_def)+
  apply (simp_all add: is_digit_def)
  done

lemma friendly_block_fields: "template_fields Text friendly_block = Some []"
  unfolding friendly_block_def
  apply (rule template_fields_appendI, simp add: is_digit_def)+
  apply (simp_all add: is_digit_def)
  done

lemma urgent_block_fields: "template_fields Text urgent_block = Some []"
  unfolding urgent_block_def
  apply (rule template_fields_appendI, simp add: is_digit_def)+
  apply (simp_all add: is_digit_def)
  done

lemma structure_block_fields: "template_fields Text structure_block = Some [''length'']"
  unfolding structure_block_def
  apply (rule template_fields_appendI, simp add: is_digit_def)+
  apply (simp_all add: is_digit_def)
  done

lemma ps_block_fields: "template_fields Text ps_block = Some []"
  by (simp add: ps_block_def)

lemma footer_block_fields: "template_fields Text footer_block = Some []"
  unfolding footer_block_def
  apply (rule template_fields_appendI, simp add: is_digit_def)+
  apply (simp_all add: is_digit_def)
  done

lemma custom_template_shape:
  "template (create_custom_email_template tone n ps) =
     base_block @ (if ps then ps_instruction_block else [])
     @ (if tone = ''formal'' then formal_block
        else if tone = ''friendly'' then friendly_block
        else if tone = ''urgent'' then urgent_block else [])
     @ structure_block @ (if ps then ps_block else []) @ footer_block"
  by (simp add: create_custom_email_template_def Let_def)

lemma custom_template_fields:
  "template_fields Text (template (create_custom_email_template tone n ps))
     = Some [''subject'', ''tone'', ''length'', ''tone'', ''length'', ''length'']"
proof -
  have opt_ps1: "template_fields Text (if ps then ps_instruction_block else []) = Some []"
    by (simp add: ps_instruction_block_fields)
  have opt_ps2: "template_fields Text (if ps then ps_block else []) = Some []"
    by (simp add: ps_block_fields)
  define g where "g = (if tone = ''formal'' then formal_block
                       else if tone = ''friendly'' then friendly_block
                       else if tone = ''urgent'' then urgent_block else [])"
  have tone: "template_fields Text g = Some []"
    by (simp add: g_def formal_block_fields friendly_block_fields urgent_block_fields)
  have shape: "template (create_custom_email_template tone n ps) =
                 base_block @ (if ps then ps_instruction_block else []) @ g @ structure_block
                 @ (if ps then ps_block else []) @ footer_block"
    unfolding g_def by (rule custom_template_shape)
  have 1: "template_fields Text ((if ps then ps_block else []) @ footer_block) = Some []"
    using template_fields_append [OF opt_ps2 footer_block_fields] by simp
  have 2: "template_fields Text (structure_block @ (if ps then ps_block else []) @ footer_block)
             = Some [''length'']"
    using template_fields_append [OF structure_block_fields 1] by simp
  have 3: "template_fields Text (g @ structure_block @ (if ps then ps_block else []) @ footer_block)
             = Some [''length'']"
    using template_fields_append [OF tone 2] by simp
  have 4: "template_fields Text ((if ps then ps_instruction_block else []) @ g @ structure_block
              @ (if ps then ps_block else []) @ footer_block) = Some [''length'']"
    using template_fields_append [OF opt_ps1 3] by simp
  show ?thesis
    unfolding shape using template_fields_append [OF base_block_fields 4] by simp
qed

lemma custom_input_variables:
  "input_variables (create_custom_email_template tone n ps) = [''subject'', ''tone'', ''length'']"
  by (simp add: create_custom_email_template_def Let_def)

subsection \<open>Rendered prompts\<close>

lemma format_prompt_restrict:
  assumes "template_fields Text (template pt) = Some ns" "set ns \<subseteq> set (input_variables pt)"
  shows "format_prompt pt (kw |` set (input_variables pt)) = format_prompt pt kw"
  unfolding format_prompt_def
  by (rule vformat_cong_fields [OF assms(1)]) (use assms(2) in auto)

lemma format_prompt_ok:
  assumes "template_fields Text (template pt) = Some ns" "set ns \<subseteq> dom kw"
  shows "\<exists>p. format_prompt pt kw = Inr p"
  unfolding format_prompt_def using vformat_ok [OF assms] .

lemma email_prompt_render:
  "\<exists>p. format_prompt \<lparr>input_variables = [''subject''], template = email_template\<rparr>
          [''subject'' \<mapsto> PyStr subject] = Inr p \<and> sublist subject p"
proof -
  let ?pt = "\<lparr>input_variables = [''subject''], template = email_template\<rparr>"
  let ?kw = "[''subject'' \<mapsto> PyStr subject]"
  have tf: "template_fields Text (template ?pt) = Some [''subject'']"
    by (simp add: email_template_fields)
  obtain p where p: "format_prompt ?pt ?kw = Inr p"
    using format_prompt_ok [OF tf, of ?kw] by auto
  have "sublist (py_str (PyStr subject)) p"
    by (rule vformat_sublist [OF tf p [unfolded format_prompt_def], of "''subject''"]) simp_all
  with p show ?thesis by auto
qed

lemma analysis_prompt_render:
  "\<exists>p. format_prompt \<lparr>input_variables = [''subject''], template = analysis_template\<rparr>
          [''subject'' \<mapsto> PyStr subject] = Inr p \<and> sublist subject p"
proof -
  let ?pt = "\<lparr>input_variables = [''subject''], template = analysis_template\<rparr>"
  let ?kw = "[''subject'' \<mapsto> PyStr subject]"
  have tf: "template_fields Text (template ?pt) = Some [''subject'']"
    by (simp add: analysis_template_fields)
  obtain p where p: "format_prompt ?pt ?kw = Inr p"
    using format_prompt_ok [OF tf, of ?kw] by auto
  have "sublist (py_str (PyStr subject)) p"
    by (rule vformat_sublist [OF tf p [unfolded format_prompt_def], of "''subject''"]) simp_all
  with p show ?thesis by auto
qed

lemma advanced_email_prompt_render:
  "\<exists>p. format_prompt \<lparr>input_variables = [''subject'', ''analysis''],
                       template = advanced_email_template\<rparr>
          [''subject'' \<mapsto> PyStr subject, ''analysis'' \<mapsto> PyStr analysis] = Inr p
       \<and> sublist subject p \<and> sublist analysis p"
proof -
  let ?pt = "\<lparr>input_variables = [''subject'', ''analysis''], template = advanced_email_template\<rparr>"
  let ?kw = "[''subject'' \<mapsto> PyStr subject, ''analysis'' \<mapsto> PyStr analysis]"
  have tf: "template_fields Text (template ?pt) = Some [''subject'', ''analysis'']"
    by (simp add: advanced_email_template_fields)
  obtain p where p: "format_prompt ?pt ?kw = Inr p"
    using format_prompt_ok [OF tf, of ?kw] by auto
  have "sublist (py_str (PyStr subject)) p"
    by (rule vformat_sublist [OF tf p [unfolded format_prompt_def], of "''subject''"]) simp_all
  moreover have "sublist (py_str (PyStr analysis)) p"
    by (rule vformat_sublist [OF tf p [unfolded format_prompt_def], of "''analysis''"]) simp_all
  ultimately show ?thesis using p by auto
qed

lemma follow_up_prompt_render:
  "\<exists>p. format_prompt \<lparr>input_variables = [''subject'', ''chat_history''],
                       template = follow_up_template\<rparr>
          [''subject'' \<mapsto> PyStr subject, ''chat_history'' \<mapsto> PyStr history] = Inr p
       \<and> sublist subject p \<and> sublist history p"
proof -
  let ?pt = "\<lparr>input_variables = [''subject'', ''chat_history''], template = follow_up_template\<rparr>"
  let ?kw = "[''subject'' \<mapsto> PyStr subject, ''chat_history'' \<mapsto> PyStr history]"
  have tf: "template_fields Text (template ?pt) = Some [''subject'', ''chat_history'']"
    by (simp add: follow_up_template_fields)
  obtain p where p: "format_prompt ?pt ?kw = Inr p"
    using format_prompt_ok [OF tf, of ?kw] by auto
  have "sublist (py_str (PyStr subject)) p"
    by (rule vformat_sublist [OF tf p [unfolded format_prompt_def], of "''subject''"]) simp_all
  moreover have "sublist (py_str (PyStr history)) p"
    by (rule vformat_sublist [OF tf p [unfolded format_prompt_def], of "''chat_history''"]) simp_all
  ultimately show ?thesis using p by auto
qed

lemma custom_prompt_render:
  "\<exists>p. format_prompt (create_custom_email_template tone n ps)
          [''subject'' \<mapsto> PyStr subject, ''tone'' \<mapsto> PyStr t, ''length'' \<mapsto> PyInt k] = Inr p
       \<and> sublist subject p \<and> sublist t p \<and> sublist (py_str_int k) p"
proof -
  let ?pt = "create_custom_email_template tone n ps"
  let ?kw = "[''subject'' \<mapsto> PyStr subject, ''tone'' \<mapsto> PyStr t, ''length'' \<mapsto> PyInt k]"
  note tf = custom_template_fields [of tone n ps]
  obtain p where p: "format_prompt ?pt ?kw = Inr p"
    using format_prompt_ok [OF tf, of ?kw] by auto
  have "sublist (py_str (PyStr subject)) p"
    by (rule vformat_sublist [OF tf p [unfolded format_prompt_def], of "''subject''"]) simp_all
  moreover have "sublist (py_str (PyStr t)) p"
    by (rule vformat_sublist [OF tf p [unfolded format_prompt_def], of "''tone''"]) simp_all
  moreover have "sublist (py_str (PyInt k)) p"
    by (rule vformat_sublist [OF tf p [unfolded format_prompt_def], of "''length''"]) simp_all
  ultimately show ?thesis using p by auto
qed

lemma length_line_render:
  "kw ''length'' = Some v \<Longrightarrow>
   vformat kw Text ''    EMAIL LENGTH: {length} paragraphs\<newline>''
     = Inr (''    EMAIL LENGTH: '' @ py_str v @ '' paragraphs\<newline>'')"
  by (simp add: is_digit_def)

lemma custom_prompt_length_line:
  assumes "format_prompt (create_custom_email_template tone n ps) kw = Inr p"
    and "{''subject'', ''tone'', ''length''} \<subseteq> dom kw" and "kw ''length'' = Some v"
  shows "sublist (''    EMAIL LENGTH: '' @ py_str v @ '' paragraphs\<newline>'') p"
proof -
  let ?a = "''\<newline>'' @
     ''    You are an AI Email Marketing Expert with years of experience crafting engaging, professional emails.\<newline>'' @
     ''    \<newline>'' @
     ''    SUBJECT: {subject}\<newline>'' @
     ''    REQUESTED TONE: {tone}\<newline>''"
  let ?l = "''    EMAIL LENGTH: {length} paragraphs\<newline>''"
  have a: "template_fields Text ?a = Some [''subject'', ''tone'']"
    apply (rule template_fields_appendI, simp add: is_digit_def)+
    apply (simp_all add: is_digit_def)
    done
  let ?t = "''    \<newline>'' @
     ''    Please create a {tone} email that includes:\<newline>'' @
     ''    1. An attention-grabbing subject line that builds on the provided subject\<newline>'' @
     ''    2. A personalized greeting with [Name] placeholder\<newline>'' @
     ''    3. A body with exactly {length} paragraphs\<newline>'' @
     ''    4. A clear call-to-action\<newline>'' @
     ''    5. A professional sign-off\<newline>'' @
     ''    ''"
  have bb: "base_block = ?a @ ?l @ ?t" by (simp add: base_block_def)
  obtain r where r: "template (create_custom_email_template tone n ps) = base_block @ r"
    using custom_template_shape [of tone n ps] by blast
  have "template (create_custom_email_template tone n ps) = ?a @ ?l @ (?t @ r)"
    unfolding r bb by simp
  then obtain b where b: "template (create_custom_email_template tone n ps) = ?a @ ?l @ b" ..
  show ?thesis
    by (rule vformat_piece [OF a length_line_render [of kw v, OF assms(3)], of b])
       (use assms b in \<open>auto simp: format_prompt_def\<close>)
qed

subsection \<open>One call of a chain\<close>

lemma filter_missing_empty: "set vars \<subseteq> dom kw \<Longrightarrow> filter (\<lambda>k. kw k = None) vars = []"
  by (auto simp: filter_empty_conv)

lemma chain_call_plain:
  assumes tf: "template_fields Text (template (prompt ch)) = Some ns"
    and sub: "set ns \<subseteq> set (input_variables (prompt ch))"
    and dom: "set (input_variables (prompt ch)) \<subseteq> dom kw"
    and mem: "memory ch = None"
    and p: "format_prompt (prompt ch) kw = Inr p"
  shows "chain_call be ch kw w =
           (on_ok (\<lambda>r. (kw, [output_key ch \<mapsto> PyStr r], ch)) (be (calls w) (llm ch) p),
            w\<lparr>calls := calls w @ [(llm ch, p)]\<rparr>)"
proof -
  have m: "filter (\<lambda>k. kw k = None) (input_variables (prompt ch)) = []"
    using dom by (rule filter_missing_empty)
  have f: "format_prompt (prompt ch) (kw |` set (input_variables (prompt ch))) = Inr p"
    using format_prompt_restrict [OF tf sub] p by simp
  show ?thesis
    by (cases "be (calls w) (llm ch) p") (simp_all add: chain_call_def mem m f backend_call_def)
qed

lemma chain_run_plain:
  assumes tf: "template_fields Text (template (prompt ch)) = Some ns"
    and sub: "set ns \<subseteq> set (input_variables (prompt ch))"
    and dom: "set (input_variables (prompt ch)) \<subseteq> dom kw"
    and mem: "memory ch = None"
    and p: "format_prompt (prompt ch) kw = Inr p"
  shows "chain_run be ch kw w =
           (on_ok (\<lambda>r. (r, ch)) (be (calls w) (llm ch) p),
            w\<lparr>calls := calls w @ [(llm ch, p)]\<rparr>)"
  by (cases "be (calls w) (llm ch) p")
     (simp_all add: chain_run_def chain_call_plain [OF assms])

lemma load_llm_calls: "calls (snd (load_llm api_key w)) = calls w"
  by (simp add: load_llm_def split: option.splits)

lemma load_llm_fields:
  "session_state (snd (load_llm api_key w)) = session_state w"
  "messages (snd (load_llm api_key w)) = messages w"
  "llm_cache (snd (load_llm api_key w)) = Some (fst (load_llm api_key w))"
  by (simp_all add: load_llm_def split: option.splits)

lemma load_llm_cached:
  "llm_cache w = Some client \<Longrightarrow> load_llm api_key w = (client, w)"
  by (simp add: load_llm_def)

lemma generate_email_eq:
  assumes "format_prompt \<lparr>input_variables = [''subject''], template = email_template\<rparr>
             [''subject'' \<mapsto> PyStr subject] = Inr p"
  shows "generate_email be subject api_key model_type w =
           (on_ok py_strip (be (calls w) (fst (load_llm api_key w)) p),
            (snd (load_llm api_key w))\<lparr>calls := calls w @ [(fst (load_llm api_key w), p)]\<rparr>)"
proof -
  obtain client w1 where l: "load_llm api_key w = (client, w1)" by (cases "load_llm api_key w")
  then have c: "calls w1 = calls w" using load_llm_calls [of api_key w] by simp
  let ?ch = "\<lparr>llm = client, prompt = \<lparr>input_variables = [''subject''], template = email_template\<rparr>,
              output_key = ''text'', memory = None\<rparr>"
  have r: "chain_run be ?ch [''subject'' \<mapsto> PyStr subject] w1 =
           (on_ok (\<lambda>r. (r, ?ch)) (be (calls w1) (llm ?ch) p), w1\<lparr>calls := calls w1 @ [(llm ?ch, p)]\<rparr>)"
    by (rule chain_run_plain [where ns = "[''subject'']"])
       (simp_all add: email_template_fields assms)
  show ?thesis
    by (cases "be (calls w) client p") (simp_all add: generate_email_def l r c)
qed

lemma generate_email_with_settings_eq:
  assumes "format_prompt (create_custom_email_template (py_lower tone) n ps)
             [''subject'' \<mapsto> PyStr subject, ''tone'' \<mapsto> PyStr (py_lower tone),
              ''length'' \<mapsto> PyInt n] = Inr p"
  shows "generate_email_with_settings be subject api_key model_type tone n ps w =
           (on_ok py_strip (be (calls w) (get_llm_by_provider model_type api_key) p),
            w\<lparr>calls := calls w @ [(get_llm_by_provider model_type api_key, p)]\<rparr>)"
proof -
  let ?client = "get_llm_by_provider model_type api_key"
  let ?ch = "\<lparr>llm = ?client, prompt = create_custom_email_template (py_lower tone) n ps,
              output_key = ''text'', memory = None\<rparr>"
  let ?kw = "[''subject'' \<mapsto> PyStr subject, ''tone'' \<mapsto> PyStr (py_lower tone),
              ''length'' \<mapsto> PyInt n]"
  have r: "chain_run be ?ch ?kw w =
           (on_ok (\<lambda>r. (r, ?ch)) (be (calls w) (llm ?ch) p), w\<lparr>calls := calls w @ [(llm ?ch, p)]\<rparr>)"
    by (rule chain_run_plain
              [where ns = "[''subject'', ''tone'', ''length'', ''tone'', ''length'', ''length'']"])
       (simp_all add: custom_template_fields custom_input_variables assms)
  show ?thesis
    by (cases "be (calls w) ?client p") (simp_all add: generate_email_with_settings_def r)
qed

lemma generate_button_failure:
  assumes p: "format_prompt \<lparr>input_variables = [''subject''], template = email_template\<rparr>
                [''subject'' \<mapsto> PyStr subject] = Inr p"
    and ne: "subject \<noteq> []"
    and e: "be (calls w) (fst (load_llm api_key w)) p = Inl e"
  shows "generate_button be subject api_key model_type w =
           (snd (load_llm api_key w))
             \<lparr>calls := calls w @ [(fst (load_llm api_key w), p)],
              messages := messages w @ [Error (''Error generating email: '' @ error_text e)]\<rparr>"
  by (simp add: generate_button_def ne generate_email_eq [OF p] e load_llm_fields)

lemma generate_button_success:
  assumes p: "format_prompt \<lparr>input_variables = [''subject''], template = email_template\<rparr>
                [''subject'' \<mapsto> PyStr subject] = Inr p"
    and ne: "subject \<noteq> []"
    and r: "be (calls w) (fst (load_llm api_key w)) p = Inr r"
  shows "session_state (generate_button be subject api_key model_type w) =
           (session_state w)(''generated_email'' \<mapsto> py_strip r, ''subject'' \<mapsto> subject)"
  by (simp add: generate_button_def ne generate_email_eq [OF p] r load_llm_fields)

subsection \<open>The pipeline and the chain with memory\<close>

lemma advanced_chain_call:
  assumes p1: "format_prompt \<lparr>input_variables = [''subject''], template = analysis_template\<rparr>
                 [''subject'' \<mapsto> PyStr subject] = Inr p1"
    and p2: "\<And>a. format_prompt \<lparr>input_variables = [''subject'', ''analysis''],
                                 template = advanced_email_template\<rparr>
                 [''subject'' \<mapsto> PyStr subject, ''analysis'' \<mapsto> PyStr a] = Inr (p2 a)"
  shows "sequential_call be (create_advanced_email_chain client) [''subject'' \<mapsto> PyStr subject] w =
           (case be (calls w) client p1 of
              Inl e \<Rightarrow> (Inl e, w\<lparr>calls := calls w @ [(client, p1)]\<rparr>)
            | Inr a \<Rightarrow>
                (case be (calls w @ [(client, p1)]) client (p2 a) of
                   Inl e \<Rightarrow> (Inl e, w\<lparr>calls := calls w @ [(client, p1), (client, p2 a)]\<rparr>)
                 | Inr m \<Rightarrow>
                     (Inr ([''subject'' \<mapsto> PyStr subject, ''analysis'' \<mapsto> PyStr a,
                            ''email'' \<mapsto> PyStr m],
                           create_advanced_email_chain client),
                      w\<lparr>calls := calls w @ [(client, p1), (client, p2 a)]\<rparr>)))"
proof -
  let ?pt1 = "\<lparr>input_variables = [''subject''], template = analysis_template\<rparr>"
  let ?pt2 = "\<lparr>input_variables = [''subject'', ''analysis''], template = advanced_email_template\<rparr>"
  let ?ch1 = "\<lparr>llm = client, prompt = ?pt1, output_key = ''analysis'', memory = None\<rparr>"
  let ?ch2 = "\<lparr>llm = client, prompt = ?pt2, output_key = ''email'', memory = None\<rparr>"
  let ?in = "[''subject'' \<mapsto> PyStr subject]"
  have c1: "chain_call be ?ch1 ?in w' =
              (on_ok (\<lambda>r. (?in, [''analysis'' \<mapsto> PyStr r], ?ch1)) (be (calls w') client p1),
               w'\<lparr>calls := calls w' @ [(client, p1)]\<rparr>)" for w'
    using chain_call_plain [of ?ch1 "[''subject'']" ?in p1 be w']
    by (simp add: analysis_template_fields p1)
  have c2: "chain_call be ?ch2 (?in(''analysis'' \<mapsto> PyStr a)) w' =
              (on_ok (\<lambda>r. (?in(''analysis'' \<mapsto> PyStr a), [''email'' \<mapsto> PyStr r], ?ch2))
                 (be (calls w') client (p2 a)),
               w'\<lparr>calls := calls w' @ [(client, p2 a)]\<rparr>)" for a w'
    using chain_call_plain [of ?ch2 "[''subject'', ''analysis'']"
                               "?in(''analysis'' \<mapsto> PyStr a)" "p2 a" be w']
    by (simp add: advanced_email_template_fields p2)
  have m: "?in ++ ([''subject'' \<mapsto> PyStr subject, ''analysis'' \<mapsto> PyStr a, ''email'' \<mapsto> PyStr e]
                     |` {''analysis'', ''email''})
           = [''subject'' \<mapsto> PyStr subject, ''analysis'' \<mapsto> PyStr a, ''email'' \<mapsto> PyStr e]" for a e
    by (rule ext) (simp add: map_add_def restrict_map_def)
  show ?thesis
  proof (cases "be (calls w) client p1")
    case (Inl e)
    then show ?thesis
      by (simp add: sequential_call_def create_advanced_email_chain_def c1)
  next
    case a: (Inr a)
    show ?thesis
    proof (cases "be (calls w @ [(client, p1)]) client (p2 a)")
      case (Inl e)
      with a show ?thesis
        by (simp add: sequential_call_def create_advanced_email_chain_def c1 c2)
    next
      case (Inr e)
      with a show ?thesis
        using m [of a e]
        by (simp add: sequential_call_def create_advanced_email_chain_def c1 c2)
    qed
  qed
qed

lemma chain_with_history_Nil: "create_email_chain_with_memory client = chain_with_history client []"
  by (simp add: chain_with_history_def create_email_chain_with_memory_def)

lemma chain_run_follow_up:
  assumes p: "format_prompt \<lparr>input_variables = [''subject'', ''chat_history''],
                             template = follow_up_template\<rparr>
                [''subject'' \<mapsto> PyStr s,
                 ''chat_history'' \<mapsto> PyStr (join_lines (map message_line msgs))] = Inr p"
  shows "chain_run be (chain_with_history client msgs) [''subject'' \<mapsto> PyStr s] w =
           (on_ok (\<lambda>r. (r, chain_with_history client (msgs @ [HumanMessage s, AIMessage r])))
              (be (calls w) client p),
            w\<lparr>calls := calls w @ [(client, p)]\<rparr>)"
proof -
  let ?pt = "\<lparr>input_variables = [''subject'', ''chat_history''], template = follow_up_template\<rparr>"
  let ?full = "[''subject'' \<mapsto> PyStr s,
                ''chat_history'' \<mapsto> PyStr (join_lines (map message_line msgs))]"
  have f: "format_prompt ?pt (?full |` {''subject'', ''chat_history''}) = Inr p"
    using format_prompt_restrict [of ?pt "[''subject'', ''chat_history'']" ?full] p
    by (simp add: follow_up_template_fields)
  show ?thesis
    by (cases "be (calls w) client p")
       (simp_all add: chain_run_def chain_call_def chain_with_history_def
          create_email_chain_with_memory_def load_memory_variables_def f p backend_call_def Let_def
          save_context_def)
qed

lemma exchanges_Cons:
  "exchanges (s # ss) (r # rs) = HumanMessage s # AIMessage r # exchanges ss rs"
  by (simp add: exchanges_def)

lemma exchanges_Nil: "exchanges [] rs = []"
  by (simp add: exchanges_def)

lemma exchanges_snoc:
  "length ss = length rs \<Longrightarrow>
   exchanges (ss @ [s]) (rs @ [r]) = exchanges ss rs @ [HumanMessage s, AIMessage r]"
  by (simp add: exchanges_def)

lemma run_generations_history:
  "run_generations be (chain_with_history client msgs) subjects w = (Inr (results, ch), w')
   \<Longrightarrow> length results = length subjects
       \<and> ch = chain_with_history client (msgs @ exchanges subjects results)"
proof (induction subjects arbitrary: msgs w results)
  case Nil
  then show ?case by (auto simp: exchanges_Nil)
next
  case (Cons s ss)
  obtain p where p: "format_prompt \<lparr>input_variables = [''subject'', ''chat_history''],
                                     template = follow_up_template\<rparr>
                [''subject'' \<mapsto> PyStr s,
                 ''chat_history'' \<mapsto> PyStr (join_lines (map message_line msgs))] = Inr p"
    using follow_up_prompt_render by blast
  note step = chain_run_follow_up [OF p, of be client w]
  show ?case
  proof (cases "be (calls w) client p")
    case (Inl e)
    with Cons.prems step show ?thesis by simp
  next
    case (Inr r)
    let ?w1 = "w\<lparr>calls := calls w @ [(client, p)]\<rparr>"
    let ?ch1 = "chain_with_history client (msgs @ [HumanMessage s, AIMessage r])"
    from Cons.prems step Inr obtain rs where
      rest: "run_generations be ?ch1 ss ?w1 = (Inr (rs, ch), w')" and res: "results = r # rs"
      by (auto split: prod.splits sum.splits)
    from Cons.IH [OF rest] res show ?thesis by (simp add: exchanges_Cons)
  qed
qed

subsection \<open>Values of the examples\<close>

lemma strip_padded: "py_strip ''  Dear [Name],\<newline>'' = ''Dear [Name],''"
  by code_simp

lemma str_int_0: "py_str_int 0 = ''0''" by code_simp

lemma str_int_1: "py_str_int 1 = ''1''" by code_simp

lemma str_int_7: "py_str_int 7 = ''7''" by code_simp

section \<open>Provider selection\<close>

text \<open>
  C1. For every provider string and API key \<open>get_llm_by_provider\<close> returns a client: the
  function has no raising branch, and its result type holds clients only. For a provider
  that is none of \<open>"openai"\<close>, \<open>"openai-chat"\<close>, \<open>"anthropic"\<close> the client is the
  default one, the OpenAI completion client that the \<open>"openai"\<close> branch builds.
\<close>

theorem get_llm_by_provider_unknown_default:
  assumes "provider \<notin> {''openai'', ''openai-chat'', ''anthropic''}"
  shows "get_llm_by_provider provider api_key =
           OpenAI (7 / 10) 1024 ''gpt-3.5-turbo-instruct'' api_key
         \<and> get_llm_by_provider provider api_key = get_llm_by_provider ''openai'' api_key"
  using assms by (simp add: get_llm_by_provider_def)

text \<open>
  The provider of the main application, \<open>"groq"\<close>, is such an unknown provider.
\<close>

theorem get_llm_by_provider_unknown_default_witness:
  "''groq'' \<notin> {''openai'', ''openai-chat'', ''anthropic''}
   \<and> get_llm_by_provider ''groq'' ''k'' = OpenAI (7 / 10) 1024 ''gpt-3.5-turbo-instruct'' ''k''
   \<and> get_llm_by_provider ''groq'' ''k'' = get_llm_by_provider ''openai'' ''k''"
proof -
  have h: "''groq'' \<notin> {''openai'', ''openai-chat'', ''anthropic''}" by simp
  from h get_llm_by_provider_unknown_default [OF h, of "''k''"] show ?thesis by blast
qed

section \<open>The two-step pipeline\<close>

text \<open>
  C2. Running the chain of \<open>create_advanced_email_chain\<close> on a subject renders the
  analysis template with the subject and sends it first; a failure there ends the run
  with that one request made. When the backend answers with an analysis, the email
  template is rendered with the subject and that analysis, the prompt of the second
  request contains the analysis text literally, the two requests are made in this order,
  and when the second answers too the result holds the subject and both outputs under
  \<open>"analysis"\<close> and \<open>"email"\<close>.
\<close>

theorem advanced_chain_two_steps:
  "\<exists>p1. format_prompt \<lparr>input_variables = [''subject''], template = analysis_template\<rparr>
            [''subject'' \<mapsto> PyStr subject] = Inr p1
      \<and> sublist subject p1
      \<and> (\<forall>e. be (calls w) client p1 = Inl e \<longrightarrow>
             sequential_call be (create_advanced_email_chain client)
               [''subject'' \<mapsto> PyStr subject] w
             = (Inl e, w\<lparr>calls := calls w @ [(client, p1)]\<rparr>))
      \<and> (\<forall>analysis. be (calls w) client p1 = Inr analysis \<longrightarrow>
             (\<exists>p2. format_prompt \<lparr>input_variables = [''subject'', ''analysis''],
                                   template = advanced_email_template\<rparr>
                      [''subject'' \<mapsto> PyStr subject, ''analysis'' \<mapsto> PyStr analysis] = Inr p2
                \<and> sublist analysis p2
                \<and> sublist subject p2
                \<and> calls (snd (sequential_call be (create_advanced_email_chain client)
                                 [''subject'' \<mapsto> PyStr subject] w))
                    = calls w @ [(client, p1), (client, p2)]
                \<and> (\<forall>email. be (calls w @ [(client, p1)]) client p2 = Inr email \<longrightarrow>
                       fst (sequential_call be (create_advanced_email_chain client)
                              [''subject'' \<mapsto> PyStr subject] w)
                       = Inr ([''subject'' \<mapsto> PyStr subject, ''analysis'' \<mapsto> PyStr analysis,
                               ''email'' \<mapsto> PyStr email],
                              create_advanced_email_chain client))))"
proof -
  let ?pt2 = "\<lparr>input_variables = [''subject'', ''analysis''], template = advanced_email_template\<rparr>"
  obtain p1 where p1: "format_prompt \<lparr>input_variables = [''subject''], template = analysis_template\<rparr>
            [''subject'' \<mapsto> PyStr subject] = Inr p1" and s1: "sublist subject p1"
    using analysis_prompt_render by blast
  define p2 where
    "p2 a = projr (format_prompt ?pt2 [''subject'' \<mapsto> PyStr subject, ''analysis'' \<mapsto> PyStr a])"
    for a
  have p2: "format_prompt ?pt2 [''subject'' \<mapsto> PyStr subject, ''analysis'' \<mapsto> PyStr a] = Inr (p2 a)"
    and s2: "sublist a (p2 a)" and s2': "sublist subject (p2 a)" for a
    using advanced_email_prompt_render [of subject a] by (auto simp: p2_def)
  note run = advanced_chain_call [of subject p1 p2 be client w, OF p1 p2]
  have fail: "sequential_call be (create_advanced_email_chain client)
               [''subject'' \<mapsto> PyStr subject] w
             = (Inl e, w\<lparr>calls := calls w @ [(client, p1)]\<rparr>)"
    if "be (calls w) client p1 = Inl e" for e
    using that by (simp add: run)
  have ok: "\<exists>q. format_prompt ?pt2 [''subject'' \<mapsto> PyStr subject, ''analysis'' \<mapsto> PyStr a] = Inr q
                \<and> sublist a q \<and> sublist subject q
                \<and> calls (snd (sequential_call be (create_advanced_email_chain client)
                                 [''subject'' \<mapsto> PyStr subject] w))
                    = calls w @ [(client, p1), (client, q)]
                \<and> (\<forall>email. be (calls w @ [(client, p1)]) client q = Inr email \<longrightarrow>
                       fst (sequential_call be (create_advanced_email_chain client)
                              [''subject'' \<mapsto> PyStr subject] w)
                       = Inr ([''subject'' \<mapsto> PyStr subject, ''analysis'' \<mapsto> PyStr a,
                               ''email'' \<mapsto> PyStr email],
                              create_advanced_email_chain client))"
    if a: "be (calls w) client p1 = Inr a" for a
  proof -
    have c: "calls (snd (sequential_call be (create_advanced_email_chain client)
                                 [''subject'' \<mapsto> PyStr subject] w))
                    = calls w @ [(client, p1), (client, p2 a)]"
      by (cases "be (calls w @ [(client, p1)]) client (p2 a)") (simp_all add: run a)
    have r: "fst (sequential_call be (create_advanced_email_chain client)
                              [''subject'' \<mapsto> PyStr subject] w)
                       = Inr ([''subject'' \<mapsto> PyStr subject, ''analysis'' \<mapsto> PyStr a,
                               ''email'' \<mapsto> PyStr m],
                              create_advanced_email_chain client)"
      if "be (calls w @ [(client, p1)]) client (p2 a) = Inr m" for m
      using that by (simp add: run a)
    from p2 [of a] s2 [of a] s2' [of a] c r show ?thesis by blast
  qed
  from p1 s1 fail ok show ?thesis by blast
qed

text \<open>
  With a backend that numbers its replies, the analysis is reply 0 and the email reply 1.
\<close>

theorem advanced_chain_two_steps_witness:
  "fst (sequential_call counting_backend (create_advanced_email_chain (ChatOpenAI (7 / 10) ''m'' ''k''))
          [''subject'' \<mapsto> PyStr ''Hi''] empty_world)
     = Inr ([''subject'' \<mapsto> PyStr ''Hi'', ''analysis'' \<mapsto> PyStr ''reply 0'',
             ''email'' \<mapsto> PyStr ''reply 1''],
            create_advanced_email_chain (ChatOpenAI (7 / 10) ''m'' ''k''))
   \<and> (\<exists>p1 p2. calls (snd (sequential_call counting_backend
                              (create_advanced_email_chain (ChatOpenAI (7 / 10) ''m'' ''k''))
                              [''subject'' \<mapsto> PyStr ''Hi''] empty_world))
                 = [(ChatOpenAI (7 / 10) ''m'' ''k'', p1), (ChatOpenAI (7 / 10) ''m'' ''k'', p2)]
              \<and> sublist ''Hi'' p1 \<and> sublist ''reply 0'' p2)"
  using advanced_chain_two_steps
          [of "''Hi''" counting_backend empty_world "ChatOpenAI (7 / 10) ''m'' ''k''"]
  by (auto simp: counting_backend_def empty_world_def str_int_0 str_int_1)

section \<open>Template construction\<close>

text \<open>
  C3. \<open>create_custom_email_template\<close> reads nothing but its three arguments, so two
  calls with identical tone, length and \<open>include_ps\<close> assemble identical bodies, character
  by character.
\<close>

theorem custom_template_deterministic:
  assumes "tone1 = tone2" and "length1 = length2" and "include_ps1 = include_ps2"
  shows "template (create_custom_email_template tone1 length1 include_ps1) =
         template (create_custom_email_template tone2 length2 include_ps2)"
  using assms by simp

theorem custom_template_deterministic_witness:
  "template (create_custom_email_template ''urgent'' 3 True) =
   template (create_custom_email_template ''urgent'' 3 True)"
  by (rule custom_template_deterministic) simp_all

text \<open>
  The body does not even depend on the length: the number reaches the prompt only when
  the template is rendered.
\<close>

lemma custom_template_ignores_length:
  "template (create_custom_email_template tone n ps) = template (create_custom_email_template tone n' ps)"
  by (simp add: create_custom_email_template_def Let_def)

section \<open>No bound on the paragraph count\<close>

text \<open>
  C4 as stated fails. \<open>generate_email_with_settings\<close> has no validation step: called with
  length 0, or with length 6, it sends one request to the backend and returns the stripped
  answer; no bound error is raised.
\<close>

theorem length_bound_counterexample:
  "fst (generate_email_with_settings padded_backend ''Hi'' ''k'' ''openai'' ''Professional'' 0 False
          empty_world) = Inr ''Dear [Name],''
   \<and> length (calls (snd (generate_email_with_settings padded_backend ''Hi'' ''k'' ''openai''
                           ''Professional'' 0 False empty_world))) = 1
   \<and> fst (generate_email_with_settings padded_backend ''Hi'' ''k'' ''openai'' ''Professional'' 6 False
          empty_world) = Inr ''Dear [Name],''
   \<and> length (calls (snd (generate_email_with_settings padded_backend ''Hi'' ''k'' ''openai''
                           ''Professional'' 6 False empty_world))) = 1"
proof -
  have "fst (generate_email_with_settings padded_backend ''Hi'' ''k'' ''openai'' ''Professional'' n
          False empty_world) = Inr ''Dear [Name],''
        \<and> length (calls (snd (generate_email_with_settings padded_backend ''Hi'' ''k'' ''openai''
                           ''Professional'' n False empty_world))) = 1" for n
  proof -
    obtain q where q: "format_prompt (create_custom_email_template (py_lower ''Professional'') n False)
       [''subject'' \<mapsto> PyStr ''Hi'', ''tone'' \<mapsto> PyStr (py_lower ''Professional''),
        ''length'' \<mapsto> PyInt n] = Inr q"
      using custom_prompt_render by blast
    show ?thesis
      by (simp add: generate_email_with_settings_eq [OF q] padded_backend_def strip_padded
            empty_world_def)
  qed
  from this [of 0] this [of 6] show ?thesis by simp
qed

text \<open>
  C4, amended. \<open>generate_email_with_settings\<close> puts no bound on the length: for every
  integer length, 0 and the values above 5 included, the customised template renders, the
  prompt holds the line \<open>EMAIL LENGTH: n paragraphs\<close> with the decimal text of the length
  as given (nothing is clamped), exactly this prompt is sent to the backend, and the result
  is the stripped answer, or the exception of the backend.
\<close>

theorem generate_email_with_settings_any_length:
  "\<exists>p. format_prompt (create_custom_email_template (py_lower tone) n include_ps)
          [''subject'' \<mapsto> PyStr subject, ''tone'' \<mapsto> PyStr (py_lower tone), ''length'' \<mapsto> PyInt n]
            = Inr p
      \<and> sublist (''    EMAIL LENGTH: '' @ py_str_int n @ '' paragraphs\<newline>'') p
      \<and> generate_email_with_settings be subject api_key model_type tone n include_ps w =
          (on_ok py_strip (be (calls w) (get_llm_by_provider model_type api_key) p),
           w\<lparr>calls := calls w @ [(get_llm_by_provider model_type api_key, p)]\<rparr>)"
proof -
  let ?kw = "[''subject'' \<mapsto> PyStr subject, ''tone'' \<mapsto> PyStr (py_lower tone),
              ''length'' \<mapsto> PyInt n]"
  obtain p where p: "format_prompt (create_custom_email_template (py_lower tone) n include_ps) ?kw
                       = Inr p"
    using custom_prompt_render by blast
  have "sublist (''    EMAIL LENGTH: '' @ py_str (PyInt n) @ '' paragraphs\<newline>'') p"
    by (rule custom_prompt_length_line [OF p]) simp_all
  with p generate_email_with_settings_eq [OF p] show ?thesis by auto
qed

theorem generate_email_with_settings_any_length_witness:
  "fst (generate_email_with_settings padded_backend ''Hi'' ''k'' ''anthropic'' ''Friendly'' 7 True
          empty_world) = Inr ''Dear [Name],''
   \<and> (\<exists>p. calls (snd (generate_email_with_settings padded_backend ''Hi'' ''k'' ''anthropic''
                         ''Friendly'' 7 True empty_world))
             = [(ChatAnthropic (7 / 10) 1024 ''claude-2'' ''k'', p)]
          \<and> sublist ''    EMAIL LENGTH: 7 paragraphs\<newline>'' p)"
  using generate_email_with_settings_any_length
          [of "''Friendly''" 7 True "''Hi''" padded_backend "''k''" "''anthropic''" empty_world]
  by (auto simp: padded_backend_def strip_padded str_int_7 empty_world_def get_llm_by_provider_def)

section \<open>Rendering the templates\<close>




section \<open>The Generate Email button\<close>

text \<open>
  C6. With an empty subject the handler only adds the warning to what is displayed: no
  request is made, nothing is cached and the session state is as before. With a subject
  whose request raises, the session state is left as it was (the stored email and subject
  are written only after \<open>generate_email\<close> has returned), the error is displayed, and
  pressing the button again runs a new request: when that one is answered, the stripped
  answer is stored.
\<close>

theorem generate_button_failure_atomic:
  "generate_button be [] api_key model_type w =
     w\<lparr>messages := messages w @ [Warning ''Please enter a subject for your email.'']\<rparr>
   \<and> (\<exists>p. format_prompt \<lparr>input_variables = [''subject''], template = email_template\<rparr>
             [''subject'' \<mapsto> PyStr subject] = Inr p
        \<and> (\<forall>e. subject \<noteq> [] \<and> be (calls w) (fst (load_llm api_key w)) p = Inl e \<longrightarrow>
               session_state (generate_button be subject api_key model_type w) = session_state w
             \<and> messages (generate_button be subject api_key model_type w) =
                 messages w @ [Error (''Error generating email: '' @ error_text e)]
             \<and> calls (generate_button be subject api_key model_type w) =
                 calls w @ [(fst (load_llm api_key w), p)]
             \<and> (\<forall>r. be (calls w @ [(fst (load_llm api_key w), p)]) (fst (load_llm api_key w)) p
                        = Inr r \<longrightarrow>
                    session_state (generate_button be subject api_key model_type
                                     (generate_button be subject api_key model_type w)) =
                      (session_state w)(''generated_email'' \<mapsto> py_strip r,
                                        ''subject'' \<mapsto> subject))))"
proof -
  obtain p where p: "format_prompt \<lparr>input_variables = [''subject''], template = email_template\<rparr>
       [''subject'' \<mapsto> PyStr subject] = Inr p"
    using email_prompt_render by blast
  let ?client = "fst (load_llm api_key w)"
  have fail: "session_state (generate_button be subject api_key model_type w) = session_state w
       \<and> messages (generate_button be subject api_key model_type w) =
           messages w @ [Error (''Error generating email: '' @ error_text e)]
       \<and> calls (generate_button be subject api_key model_type w) = calls w @ [(?client, p)]
       \<and> (\<forall>r. be (calls w @ [(?client, p)]) ?client p = Inr r \<longrightarrow>
              session_state (generate_button be subject api_key model_type
                               (generate_button be subject api_key model_type w)) =
                (session_state w)(''generated_email'' \<mapsto> py_strip r, ''subject'' \<mapsto> subject))"
    if ne: "subject \<noteq> []" and e: "be (calls w) ?client p = Inl e" for e
  proof -
    let ?w' = "generate_button be subject api_key model_type w"
    note w' = generate_button_failure
                [where be = be and w = w and api_key = api_key and model_type = model_type,
                 OF p ne e]
    have c: "llm_cache ?w' = Some ?client" by (simp add: w' load_llm_fields)
    have l: "load_llm api_key ?w' = (?client, ?w')" by (rule load_llm_cached [OF c])
    have retry: "session_state (generate_button be subject api_key model_type ?w') =
                   (session_state w)(''generated_email'' \<mapsto> py_strip r, ''subject'' \<mapsto> subject)"
      if r: "be (calls w @ [(?client, p)]) ?client p = Inr r" for r
    proof -
      have "be (calls ?w') (fst (load_llm api_key ?w')) p = Inr r"
        using r by (simp add: l) (simp add: w')
      from generate_button_success
             [where be = be and w = "?w'" and api_key = api_key and model_type = model_type,
              OF p ne this]
      show ?thesis by (simp add: w' load_llm_fields)
    qed
    show ?thesis using retry by (simp add: w' load_llm_fields)
  qed
  have "generate_button be [] api_key model_type w =
     w\<lparr>messages := messages w @ [Warning ''Please enter a subject for your email.'']\<rparr>"
    by (simp add: generate_button_def)
  with p fail show ?thesis by blast
qed

text \<open>
  A session that displays an old email, and a backend that raises on the first request
  only.
\<close>

theorem generate_button_failure_atomic_witness:
  "generate_button flaky_backend [] ''k'' ''groq'' prior_world =
     prior_world\<lparr>messages := [Warning ''Please enter a subject for your email.'']\<rparr>
   \<and> session_state (generate_button flaky_backend ''Hi'' ''k'' ''groq'' prior_world) =
       [''generated_email'' \<mapsto> ''old email'']
   \<and> messages (generate_button flaky_backend ''Hi'' ''k'' ''groq'' prior_world) =
       [Error ''Error generating email: timeout'']
   \<and> session_state (generate_button flaky_backend ''Hi'' ''k'' ''groq''
                      (generate_button flaky_backend ''Hi'' ''k'' ''groq'' prior_world)) =
       [''generated_email'' \<mapsto> ''Dear [Name],'', ''subject'' \<mapsto> ''Hi'']"
  using generate_button_failure_atomic [of flaky_backend "''k''" "''groq''" prior_world "''Hi''"]
  by (auto simp: flaky_backend_def prior_world_def empty_world_def strip_padded)

section \<open>The chain with memory\<close>

text \<open>
  C7. After N successful generations through the chain of
  \<open>create_email_chain_with_memory\<close>, its memory holds the N (subject, result) pairs in the
  order of the generations. The prompt of the next generation is the follow-up template
  rendered with the new subject and, for \<open>{chat_history}\<close>, the transcript of these pairs
  (a line \<open>Human: subject\<close> and a line \<open>AI: result\<close> for each, oldest first), which the
  prompt contains literally; and when that generation succeeds its pair is appended.
\<close>

theorem memory_chain_transcript:
  assumes "run_generations be (create_email_chain_with_memory client) subjects w
             = (Inr (results, ch), w')"
  shows "length results = length subjects
     \<and> memory ch = Some \<lparr>memory_key = ''chat_history'', input_key = ''subject'',
                          chat_memory = exchanges subjects results\<rparr>
     \<and> (\<exists>p. format_prompt \<lparr>input_variables = [''subject'', ''chat_history''],
                            template = follow_up_template\<rparr>
               [''subject'' \<mapsto> PyStr next_subject,
                ''chat_history'' \<mapsto>
                  PyStr (join_lines (map message_line (exchanges subjects results)))] = Inr p
          \<and> sublist (join_lines (map message_line (exchanges subjects results))) p
          \<and> calls (snd (chain_run be ch [''subject'' \<mapsto> PyStr next_subject] w'))
              = calls w' @ [(client, p)]
          \<and> (\<forall>r. be (calls w') client p = Inr r \<longrightarrow>
                 (\<exists>ch'. fst (chain_run be ch [''subject'' \<mapsto> PyStr next_subject] w') = Inr (r, ch')
                    \<and> memory ch' = Some \<lparr>memory_key = ''chat_history'', input_key = ''subject'',
                                          chat_memory = exchanges (subjects @ [next_subject])
                                                                  (results @ [r])\<rparr>)))"
proof -
  let ?h = "join_lines (map message_line (exchanges subjects results))"
  from assms have "run_generations be (chain_with_history client []) subjects w
             = (Inr (results, ch), w')"
    by (simp add: chain_with_history_Nil)
  from run_generations_history [OF this]
  have len: "length results = length subjects"
    and ch: "ch = chain_with_history client (exchanges subjects results)" by simp_all
  have m: "memory ch = Some \<lparr>memory_key = ''chat_history'', input_key = ''subject'',
                          chat_memory = exchanges subjects results\<rparr>"
    by (simp add: ch chain_with_history_def)
  obtain p where p: "format_prompt \<lparr>input_variables = [''subject'', ''chat_history''],
                            template = follow_up_template\<rparr>
               [''subject'' \<mapsto> PyStr next_subject, ''chat_history'' \<mapsto> PyStr ?h] = Inr p"
    and s: "sublist ?h p"
    using follow_up_prompt_render by blast
  note step = chain_run_follow_up [OF p, of be client w', folded ch]
  have c: "calls (snd (chain_run be ch [''subject'' \<mapsto> PyStr next_subject] w'))
              = calls w' @ [(client, p)]"
    by (simp add: step)
  have n: "\<exists>ch'. fst (chain_run be ch [''subject'' \<mapsto> PyStr next_subject] w') = Inr (r, ch')
                    \<and> memory ch' = Some \<lparr>memory_key = ''chat_history'', input_key = ''subject'',
                                          chat_memory = exchanges (subjects @ [next_subject])
                                                                  (results @ [r])\<rparr>"
    if "be (calls w') client p = Inr r" for r
    using that len by (simp add: step chain_with_history_def exchanges_snoc)
  from len m p s c n show ?thesis by blast
qed

text \<open>
  Two generations with a backend that numbers its replies, then a third prompt.
\<close>

theorem memory_chain_transcript_witness:
  "fst (run_generations counting_backend (create_email_chain_with_memory (ChatOpenAI (7 / 10) ''m'' ''k''))
          [''First'', ''Second''] empty_world)
     = Inr ([''reply 0'', ''reply 1''],
            chain_with_history (ChatOpenAI (7 / 10) ''m'' ''k'')
              [HumanMessage ''First'', AIMessage ''reply 0'',
               HumanMessage ''Second'', AIMessage ''reply 1''])
   \<and> (\<exists>p. calls (snd (chain_run counting_backend
                         (chain_with_history (ChatOpenAI (7 / 10) ''m'' ''k'')
                            [HumanMessage ''First'', AIMessage ''reply 0'',
                             HumanMessage ''Second'', AIMessage ''reply 1''])
                         [''subject'' \<mapsto> PyStr ''Third'']
                         (snd (run_generations counting_backend
                                 (create_email_chain_with_memory (ChatOpenAI (7 / 10) ''m'' ''k''))
                                 [''First'', ''Second''] empty_world))))
            = calls (snd (run_generations counting_backend
                            (create_email_chain_with_memory (ChatOpenAI (7 / 10) ''m'' ''k''))
                            [''First'', ''Second''] empty_world))
              @ [(ChatOpenAI (7 / 10) ''m'' ''k'', p)]
         \<and> sublist ''Human: First\<newline>AI: reply 0\<newline>Human: Second\<newline>AI: reply 1'' p)"
proof -
  let ?c = "ChatOpenAI (7 / 10) ''m'' ''k''"
  let ?run = "run_generations counting_backend (create_email_chain_with_memory ?c)
                [''First'', ''Second''] empty_world"
  let ?ch = "chain_with_history ?c [HumanMessage ''First'', AIMessage ''reply 0'',
                                     HumanMessage ''Second'', AIMessage ''reply 1'']"
  obtain p1 where p1: "format_prompt \<lparr>input_variables = [''subject'', ''chat_history''],
                            template = follow_up_template\<rparr>
               [''subject'' \<mapsto> PyStr ''First'',
                ''chat_history'' \<mapsto> PyStr (join_lines (map message_line []))] = Inr p1"
    using follow_up_prompt_render by blast
  obtain p2 where p2: "format_prompt \<lparr>input_variables = [''subject'', ''chat_history''],
                            template = follow_up_template\<rparr>
               [''subject'' \<mapsto> PyStr ''Second'',
                ''chat_history'' \<mapsto> PyStr (join_lines (map message_line
                    [HumanMessage ''First'', AIMessage ''reply 0'']))] = Inr p2"
    using follow_up_prompt_render by blast
  have f: "fst ?run = Inr ([''reply 0'', ''reply 1''], ?ch)"
    by (simp add: chain_with_history_Nil chain_run_follow_up [OF p1] chain_run_follow_up [OF p2]
          counting_backend_def empty_world_def str_int_0 str_int_1)
  then have h: "?run = (Inr ([''reply 0'', ''reply 1''], ?ch), snd ?run)"
    by (metis prod.collapse)
  from memory_chain_transcript [OF h, of "''Third''"] f show ?thesis
    by (auto simp: exchanges_def)
qed

section \<open>Single-step generation\<close>

text \<open>
  C8. For every subject (the empty one included, which only the button handler rejects)
  \<open>generate_email\<close> renders the base template and \<open>generate_email_with_settings\<close> the
  customised one with the variables supplied; the prompt sent to the backend is this
  rendering and contains the subject literally; the result is the answer of the backend
  with its leading and trailing whitespace removed, and nothing else: the answer is a run
  of whitespace, the result, and a run of whitespace, and a result that is not empty
  neither starts nor ends with whitespace. An exception of the backend is passed on.
\<close>

theorem single_step_generation:
  "\<exists>p q.
     format_prompt \<lparr>input_variables = [''subject''], template = email_template\<rparr>
       [''subject'' \<mapsto> PyStr subject] = Inr p
   \<and> sublist subject p
   \<and> generate_email be subject api_key model_type w =
       (on_ok py_strip (be (calls w) (fst (load_llm api_key w)) p),
        (snd (load_llm api_key w))\<lparr>calls := calls w @ [(fst (load_llm api_key w), p)]\<rparr>)
   \<and> format_prompt (create_custom_email_template (py_lower tone) n include_ps)
       [''subject'' \<mapsto> PyStr subject, ''tone'' \<mapsto> PyStr (py_lower tone), ''length'' \<mapsto> PyInt n]
         = Inr q
   \<and> sublist subject q
   \<and> generate_email_with_settings be subject api_key model_type tone n include_ps w =
       (on_ok py_strip (be (calls w) (get_llm_by_provider model_type api_key) q),
        w\<lparr>calls := calls w @ [(get_llm_by_provider model_type api_key, q)]\<rparr>)
   \<and> (\<forall>r. (\<exists>a b. r = a @ py_strip r @ b \<and> list_all py_isspace a \<and> list_all py_isspace b)
          \<and> (py_strip r = []
               \<or> (\<not> py_isspace (hd (py_strip r)) \<and> \<not> py_isspace (last (py_strip r)))))"
proof -
  obtain p where p: "format_prompt \<lparr>input_variables = [''subject''], template = email_template\<rparr>
       [''subject'' \<mapsto> PyStr subject] = Inr p" and sp: "sublist subject p"
    using email_prompt_render by blast
  obtain q where q: "format_prompt (create_custom_email_template (py_lower tone) n include_ps)
       [''subject'' \<mapsto> PyStr subject, ''tone'' \<mapsto> PyStr (py_lower tone), ''length'' \<mapsto> PyInt n]
         = Inr q" and sq: "sublist subject q"
    using custom_prompt_render by blast
  have s: "(\<exists>a b. r = a @ py_strip r @ b \<and> list_all py_isspace a \<and> list_all py_isspace b)
          \<and> (py_strip r = []
               \<or> (\<not> py_isspace (hd (py_strip r)) \<and> \<not> py_isspace (last (py_strip r))))" for r
    using py_strip_decomp [of r] py_strip_ends [of r] by blast
  from p sp q sq s generate_email_eq [OF p] generate_email_with_settings_eq [OF q]
  show ?thesis by blast
qed

text \<open>
  The example of the specification, with a backend whose answer is padded.
\<close>

theorem single_step_generation_witness:
  "fst (generate_email padded_backend ''Quarterly Strategy Meeting - June 15th'' ''k'' ''groq''
          empty_world) = Inr ''Dear [Name],''
   \<and> fst (generate_email_with_settings padded_backend ''Quarterly Strategy Meeting - June 15th''
            ''k'' ''default'' ''Professional'' 3 False empty_world) = Inr ''Dear [Name],''"
  using single_step_generation [of "''Quarterly Strategy Meeting - June 15th''" padded_backend
          "''k''" "''groq''" empty_world "''Professional''" 3 False]
        single_step_generation [of "''Quarterly Strategy Meeting - June 15th''" padded_backend
          "''k''" "''default''" empty_world "''Professional''" 3 False]
  by (auto simp: padded_backend_def strip_padded)

section \<open>The model type of the main application\<close>

text \<open>
  C9. \<open>generate_email\<close> calls \<open>load_llm(api_key)\<close> in both branches on \<open>model_type\<close>:
  whatever the two values, the two runs from the same state against the same backend give
  the same result, make the same request and leave the same state.
\<close>

theorem generate_email_ignores_model_type:
  "generate_email be subject api_key model_type1 w = generate_email be subject api_key model_type2 w"
  by (simp add: generate_email_def)

theorem generate_email_ignores_model_type_witness:
  "generate_email (\<lambda>sent client p. Inr ''ok'') ''Hi'' ''k'' ''openai'' empty_world =
   generate_email (\<lambda>sent client p. Inr ''ok'') ''Hi'' ''k'' ''groq'' empty_world"
  by (rule generate_email_ignores_model_type)

section \<open>Tones without guidance\<close>

text \<open>
  C10. For a tone other than \<open>"formal"\<close>, \<open>"friendly"\<close> and \<open>"urgent"\<close> the assembled
  body is the base block, the postscript instruction when \<open>include_ps\<close> holds, the
  structure block, the postscript block when \<open>include_ps\<close> holds, and the footer: the
  tone contributes no fragment.
\<close>

theorem custom_template_other_tone:
  assumes "tone \<notin> {''formal'', ''friendly'', ''urgent''}"
  shows "template (create_custom_email_template tone n include_ps) =
           base_block @ (if include_ps then ps_instruction_block else []) @ structure_block
           @ (if include_ps then ps_block else []) @ footer_block"
  using assms by (simp add: create_custom_email_template_def Let_def)

text \<open>
  The default tone \<open>"Professional"\<close>, lowered by \<open>generate_email_with_settings\<close>, is
  such a tone.
\<close>

theorem custom_template_other_tone_witness:
  "py_lower ''Professional'' = ''professional''
   \<and> ''professional'' \<notin> {''formal'', ''friendly'', ''urgent''}
   \<and> template (create_custom_email_template ''professional'' 3 False) =
       base_block @ structure_block @ footer_block
   \<and> template (create_custom_email_template ''professional'' 3 True) =
       base_block @ ps_instruction_block @ structure_block @ ps_block @ footer_block"
proof -
  have h: "''professional'' \<notin> {''formal'', ''friendly'', ''urgent''}" by simp
  have l: "py_lower ''Professional'' = ''professional''"
    by code_simp
  from h l custom_template_other_tone [OF h, of 3 False] custom_template_other_tone [OF h, of 3 True]
  show ?thesis by simp
qed

end
